theory Spec2Isabelle
  imports
    Complex_Main
    "HOL-Library.Char_ord"
    "HOL-Library.List_Lexorder"
    "HOL-Library.Product_Lexorder"
    "HOL-Library.Multiset"
begin

section \<open>Common data of the GridPath model modules\<close>

text \<open>
  Projects, transmission lines and load zones are named by strings; periods and
  timepoints are integers. A period is the integer the input files give it, and the
  capacity-type modules add a lifetime in years to it, so a period is read as a year.
\<close>

type_synonym project = string
type_synonym period = int
type_synonym timepoint = int

text \<open>
  The Python exceptions the modelled functions can raise. The payload names the
  component, attribute or local variable the exception is about.
\<close>

datatype py_error =
    KeyError string
  | AttributeError string
  | UnboundLocalError string
  | ValueError string
  | ZeroDivisionError
  | OverflowError

section \<open>Transmission capacity type \<open>mass_new_lin\<close>\<close>

text \<open>
  The part of the Pyomo model that \<open>mass_new_lin.py\<close> reads: the ordered set
  \<open>PERIODS\<close> (declared by the temporal module and shared by every capacity type),
  the two-dimensional set \<open>MASS_NEW_LIN_VNTS\<close> of (line, vintage)
  pairs, the parameter \<open>mass_new_lin_lifetime_yrs\<close> indexed by that set (reading an
  index without a value raises), and the derived indexed set
  \<open>OPR_PRDS_BY_MASS_NEW_LIN_VINTAGE\<close>.
\<close>

record investment_periods =
  PERIODS :: "period list"

record mass_new_lin_model = investment_periods +
  MASS_NEW_LIN_VNTS :: "(project \<times> period) list"
  mass_new_lin_lifetime_yrs :: "project \<times> period \<rightharpoonup> real"
  OPR_PRDS_BY_MASS_NEW_LIN_VINTAGE :: "project \<times> period \<rightharpoonup> period list"

text \<open>
  The loop of \<open>operational_periods_by_new_build_transmission_vintage\<close>. The test
  \<open>v <= p < v + lifetime[g, v]\<close> is a chained comparison: the lifetime is read only
  when \<open>v <= p\<close> holds.
\<close>

fun operational_periods_loop ::
  "(project \<times> period \<rightharpoonup> real) \<Rightarrow> project \<Rightarrow> period \<Rightarrow> period list \<Rightarrow> period list
    \<Rightarrow> py_error + period list" where
  "operational_periods_loop lifetime g v [] operational_periods = Inr operational_periods"
| "operational_periods_loop lifetime g v (p # ps) operational_periods =
     (if v \<le> p then
        (case lifetime (g, v) of
           None \<Rightarrow> Inl (KeyError ''mass_new_lin_lifetime_yrs'')
         | Some l \<Rightarrow>
             if real_of_int p < real_of_int v + l
             then operational_periods_loop lifetime g v ps (operational_periods @ [p])
             else operational_periods_loop lifetime g v ps operational_periods)
      else operational_periods_loop lifetime g v ps operational_periods)"

definition operational_periods_by_new_build_transmission_vintage ::
  "'a mass_new_lin_model_scheme \<Rightarrow> project \<Rightarrow> period \<Rightarrow> py_error + period list" where
  "operational_periods_by_new_build_transmission_vintage m g v =
     operational_periods_loop (mass_new_lin_lifetime_yrs m) g v (PERIODS m) []"

text \<open>
  The generator of \<open>new_build_transmission_operational_periods\<close>: for every
  (line, vintage) of \<open>MASS_NEW_LIN_VNTS\<close>, in order, the pairs (line, period) for the
  periods of the vintage's indexed set.
\<close>

fun line_period_pairs ::
  "(project \<times> period \<rightharpoonup> period list) \<Rightarrow> (project \<times> period) list
    \<Rightarrow> py_error + (project \<times> period) list" where
  "line_period_pairs opr [] = Inr []"
| "line_period_pairs opr ((g, v) # vnts) =
     (case opr (g, v) of
        None \<Rightarrow> Inl (KeyError ''OPR_PRDS_BY_MASS_NEW_LIN_VINTAGE'')
      | Some ps \<Rightarrow>
          (case line_period_pairs opr vnts of
             Inl e \<Rightarrow> Inl e
           | Inr rest \<Rightarrow> Inr (map (\<lambda>p. (g, p)) ps @ rest)))"

text \<open>
  Python's \<open>list(set(xs))\<close> keeps one copy of every element. The order in which a
  Python set is iterated is not specified; the model keeps the order of the last
  occurrences, and no statement below depends on the order.
\<close>

definition list_of_set :: "'a list \<Rightarrow> 'a list" where
  "list_of_set xs = remdups xs"

definition new_build_transmission_operational_periods ::
  "'a mass_new_lin_model_scheme \<Rightarrow> py_error + (project \<times> period) list" where
  "new_build_transmission_operational_periods m =
     (case line_period_pairs (OPR_PRDS_BY_MASS_NEW_LIN_VINTAGE m) (MASS_NEW_LIN_VNTS m) of
        Inl e \<Rightarrow> Inl e
      | Inr pairs \<Rightarrow> Inr (list_of_set pairs))"

subsection \<open>The window with Python's arithmetic\<close>

text \<open>
  In \<open>v + mod.mass_new_lin_lifetime_yrs[g, v]\<close> the vintage is an integer and the
  lifetime is the number that was loaded; when that is a float, Python returns the
  double nearest to the exact sum, an infinity when the sum is out of range, or raises
  \<open>OverflowError\<close> when the vintage does not fit a double. The comparison of the period,
  an integer, with the result is exact.
\<close>

datatype py_float = Finite real | PlusInfinity | MinusInfinity

definition int_less_float :: "int \<Rightarrow> py_float \<Rightarrow> bool" where
  "int_less_float p x =
     (case x of Finite y \<Rightarrow> real_of_int p < y | PlusInfinity \<Rightarrow> True | MinusInfinity \<Rightarrow> False)"

text \<open>
  Reading the parameter at an index: an index outside \<open>MASS_NEW_LIN_VNTS\<close> raises
  \<open>KeyError\<close>, an index of the set without a value raises \<open>ValueError\<close>.
\<close>

definition lifetime_yrs_at :: "'a mass_new_lin_model_scheme \<Rightarrow> project \<Rightarrow> period \<Rightarrow> py_error + real" where
  "lifetime_yrs_at m g v =
     (if (g, v) \<in> set (MASS_NEW_LIN_VNTS m) then
        (case mass_new_lin_lifetime_yrs m (g, v) of
           None \<Rightarrow> Inl (ValueError ''mass_new_lin_lifetime_yrs'')
         | Some l \<Rightarrow> Inr l)
      else Inl (KeyError ''mass_new_lin_lifetime_yrs''))"

text \<open>
  The loop of \<open>operational_periods_by_new_build_transmission_vintage\<close> with Python's
  addition \<open>int_plus_float\<close> as a parameter: \<open>int_plus_float v l\<close> is what Python
  returns for \<open>v + l\<close>. As above, the lifetime is read and added only when \<open>v <= p\<close>
  holds.
\<close>

fun py_operational_periods_loop ::
  "(int \<Rightarrow> real \<Rightarrow> py_error + py_float) \<Rightarrow> (py_error + real) \<Rightarrow> period \<Rightarrow> period list
    \<Rightarrow> period list \<Rightarrow> py_error + period list" where
  "py_operational_periods_loop int_plus_float lifetime v [] operational_periods =
     Inr operational_periods"
| "py_operational_periods_loop int_plus_float lifetime v (p # ps) operational_periods =
     (if v \<le> p then
        (case lifetime of
           Inl e \<Rightarrow> Inl e
         | Inr l \<Rightarrow>
             (case int_plus_float v l of
                Inl e \<Rightarrow> Inl e
              | Inr bound \<Rightarrow>
                  if int_less_float p bound
                  then py_operational_periods_loop int_plus_float lifetime v ps
                         (operational_periods @ [p])
                  else py_operational_periods_loop int_plus_float lifetime v ps
                         operational_periods))
      else py_operational_periods_loop int_plus_float lifetime v ps operational_periods)"

definition py_operational_periods_by_new_build_transmission_vintage ::
  "(int \<Rightarrow> real \<Rightarrow> py_error + py_float) \<Rightarrow> 'a mass_new_lin_model_scheme \<Rightarrow> project \<Rightarrow> period
    \<Rightarrow> py_error + period list" where
  "py_operational_periods_by_new_build_transmission_vintage int_plus_float m g v =
     py_operational_periods_loop int_plus_float (lifetime_yrs_at m g v) v (PERIODS m) []"

section \<open>Pyomo expressions and constraints\<close>

text \<open>
  A rule returns a symbolic expression over parameter values (numbers) and decision
  variables. A variable is named by its component and its two indices (a project or
  zone, and a timepoint or period). A constraint rule returns an equation or
  \<open>Constraint.Skip\<close>.
\<close>

datatype expr =
    Num real
  | Var string string int
  | Add expr expr
  | Sub expr expr
  | Mul expr expr
  | Div expr expr

datatype constraint = Skip | Eq expr expr

text \<open>Python's \<open>sum\<close> over a generator: it starts from 0 and adds from the left.\<close>

definition py_sum :: "expr list \<Rightarrow> expr" where
  "py_sum es = foldl Add (Num 0) es"

text \<open>
  The value of an expression under values for the decision variables; a division by
  zero has no value.
\<close>

type_synonym valuation = "string \<Rightarrow> string \<Rightarrow> int \<Rightarrow> real"

fun binop :: "(real \<Rightarrow> real \<Rightarrow> real) \<Rightarrow> real option \<Rightarrow> real option \<Rightarrow> real option" where
  "binop f (Some x) (Some y) = Some (f x y)"
| "binop f _ _ = None"

fun eval_expr :: "valuation \<Rightarrow> expr \<Rightarrow> real option" where
  "eval_expr \<rho> (Num x) = Some x"
| "eval_expr \<rho> (Var name i j) = Some (\<rho> name i j)"
| "eval_expr \<rho> (Add a b) = binop plus (eval_expr \<rho> a) (eval_expr \<rho> b)"
| "eval_expr \<rho> (Sub a b) = binop minus (eval_expr \<rho> a) (eval_expr \<rho> b)"
| "eval_expr \<rho> (Mul a b) = binop times (eval_expr \<rho> a) (eval_expr \<rho> b)"
| "eval_expr \<rho> (Div a b) =
     (if eval_expr \<rho> b = Some 0 then None
      else binop divide (eval_expr \<rho> a) (eval_expr \<rho> b))"

text \<open>
  A generator whose items are looked up one after the other: the first lookup that
  raises ends it.
\<close>

fun collect :: "('a \<Rightarrow> py_error + 'b) \<Rightarrow> 'a list \<Rightarrow> py_error + 'b list" where
  "collect f [] = Inr []"
| "collect f (x # xs) =
     (case f x of
        Inl e \<Rightarrow> Inl e
      | Inr y \<Rightarrow> (case collect f xs of Inl e \<Rightarrow> Inl e | Inr ys \<Rightarrow> Inr (y # ys)))"

section \<open>The dynamic components registry\<close>

text \<open>
  The \<open>DynamicComponents\<close> object \<open>d\<close> that every \<open>add_model_components\<close>
  receives: named lists of component names, appended to while the modules are added.
\<close>

record dynamic_components =
  capacity_type_operational_period_sets :: "string list"
  storage_only_capacity_type_operational_period_sets :: "string list"
  tx_capacity_type_operational_period_sets :: "string list"
  ccs_balance_production_components :: "string list"
  ccs_balance_consumption_components :: "string list"

section \<open>System module \<open>ccs_balance\<close>\<close>

text \<open>
  The model as \<open>ccs_balance.py\<close> sees it: the load zones and timepoints, the two
  \<open>allow_...\<close> parameters, and the indexed expressions of the model by name
  (\<open>getattr(mod, component)[z, tmp]\<close>).
\<close>

record ccs_balance_model =
  LOAD_ZONES :: "string list"
  TMPS :: "timepoint list"
  allow_over_ccs :: "string \<Rightarrow> real"
  allow_unserved_ccs :: "string \<Rightarrow> real"
  expressions :: "string \<rightharpoonup> (string \<times> timepoint \<rightharpoonup> expr)"

definition over_ccs_expression_rule :: "ccs_balance_model \<Rightarrow> string \<Rightarrow> timepoint \<Rightarrow> expr" where
  "over_ccs_expression_rule m z tmp = Mul (Num (allow_over_ccs m z)) (Var ''Over_CCS'' z tmp)"

definition unserved_ccs_expression_rule :: "ccs_balance_model \<Rightarrow> string \<Rightarrow> timepoint \<Rightarrow> expr" where
  "unserved_ccs_expression_rule m z tmp =
     Mul (Num (allow_unserved_ccs m z)) (Var ''Unserved_CCS'' z tmp)"

text \<open>An \<open>Expression\<close> indexed by \<open>LOAD_ZONES\<close> and \<open>TMPS\<close>, built from its rule.\<close>

definition zone_tmp_expression ::
  "ccs_balance_model \<Rightarrow> (string \<Rightarrow> timepoint \<Rightarrow> expr) \<Rightarrow> (string \<times> timepoint \<rightharpoonup> expr)" where
  "zone_tmp_expression m rule =
     (\<lambda>(z, tmp). if z \<in> set (LOAD_ZONES m) \<and> tmp \<in> set (TMPS m) then Some (rule z tmp) else None)"

definition record_dynamic_components :: "dynamic_components \<Rightarrow> dynamic_components" where
  "record_dynamic_components d =
     d\<lparr> ccs_balance_production_components :=
          ccs_balance_production_components d @ [''Unserved_CCS_Expression''],
        ccs_balance_consumption_components :=
          ccs_balance_consumption_components d @ [''Over_CCS_Expression''] \<rparr>"

text \<open>
  \<open>add_model_components\<close> of \<open>ccs_balance.py\<close>: the two penalty expressions are
  added to the model and \<open>record_dynamic_components\<close> is called; the constraint
  \<open>Meet_CCS_Constraint\<close> is declared with \<open>meet_ccs_rule\<close>, which reads the registry
  when the constraint is constructed.
\<close>

definition ccs_balance_add_model_components ::
  "ccs_balance_model \<Rightarrow> dynamic_components \<Rightarrow> ccs_balance_model \<times> dynamic_components" where
  "ccs_balance_add_model_components m d =
     (m\<lparr> expressions := (expressions m)
          (''Over_CCS_Expression'' \<mapsto> zone_tmp_expression m (over_ccs_expression_rule m),
           ''Unserved_CCS_Expression'' \<mapsto> zone_tmp_expression m (unserved_ccs_expression_rule m)) \<rparr>,
      record_dynamic_components d)"

definition component_at :: "ccs_balance_model \<Rightarrow> string \<Rightarrow> timepoint \<Rightarrow> string \<Rightarrow> py_error + expr" where
  "component_at m z tmp component =
     (case expressions m component of
        None \<Rightarrow> Inl (AttributeError component)
      | Some indexed \<Rightarrow>
          (case indexed (z, tmp) of None \<Rightarrow> Inl (KeyError component) | Some e \<Rightarrow> Inr e))"

definition meet_ccs_rule ::
  "dynamic_components \<Rightarrow> ccs_balance_model \<Rightarrow> string \<Rightarrow> timepoint \<Rightarrow> py_error + constraint" where
  "meet_ccs_rule d m z tmp =
     (case collect (component_at m z tmp) (ccs_balance_production_components d) of
        Inl e \<Rightarrow> Inl e
      | Inr production \<Rightarrow>
          (case collect (component_at m z tmp) (ccs_balance_consumption_components d) of
             Inl e \<Rightarrow> Inl e
           | Inr consumption \<Rightarrow> Inr (Eq (py_sum production) (py_sum consumption))))"

section \<open>Capacity type \<open>dr_new\<close>\<close>

record dr_new_model = investment_periods +
  DR_NEW :: "project list"

text \<open>
  The variable \<open>DRNew_Build_MWh\<close> is indexed by \<open>DR_NEW\<close> and \<open>PERIODS\<close>; an index
  outside raises.
\<close>

definition DRNew_Build_MWh :: "'a dr_new_model_scheme \<Rightarrow> project \<Rightarrow> period \<Rightarrow> py_error + expr" where
  "DRNew_Build_MWh m g p =
     (if g \<in> set (DR_NEW m) \<and> p \<in> set (PERIODS m)
      then Inr (Var ''DRNew_Build_MWh'' g p)
      else Inl (KeyError ''DRNew_Build_MWh''))"

definition DR_NEW_OPR_PRDS :: "'a dr_new_model_scheme \<Rightarrow> (project \<times> period) list" where
  "DR_NEW_OPR_PRDS m = List.product (DR_NEW m) (PERIODS m)"

definition dr_new_energy_capacity_rule ::
  "'a dr_new_model_scheme \<Rightarrow> project \<Rightarrow> period \<Rightarrow> py_error + expr" where
  "dr_new_energy_capacity_rule m g p =
     (case collect (DRNew_Build_MWh m g) (filter (\<lambda>prev_p. prev_p \<le> p) (PERIODS m)) of
        Inl e \<Rightarrow> Inl e
      | Inr builds \<Rightarrow> Inr (py_sum builds))"

definition dr_new_add_module_specific_components :: "dynamic_components \<Rightarrow> dynamic_components" where
  "dr_new_add_module_specific_components d =
     d\<lparr> capacity_type_operational_period_sets :=
          capacity_type_operational_period_sets d @ [''DR_NEW_OPR_PRDS''],
        storage_only_capacity_type_operational_period_sets :=
          storage_only_capacity_type_operational_period_sets d @ [''DR_NEW_OPR_PRDS''] \<rparr>"

section \<open>Operational type \<open>stor_H2\<close>\<close>

subsection \<open>Files\<close>

text \<open>
  A path is the list of the parts given to \<open>os.path.join\<close>; \<open>str(n)\<close> of an integer
  is kept as the integer. A delimited file is its header and its rows of cells. The
  file system maps the paths of the files that exist to their contents.
\<close>

datatype path_part = Name string | Number int

type_synonym path = "path_part list"

datatype cell = Text string | Whole int | Decimal real

record table =
  header :: "string list"
  rows :: "cell list list"

type_synonym filesystem = "path \<rightharpoonup> table"

subsection \<open>The model\<close>

text \<open>
  The part of the Pyomo model that \<open>stor_H2.py\<close> reads.

  Modelled from the spec: \<open>check_if_first_timepoint\<close> and \<open>check_boundary_type\<close>
  (\<open>gridpath.project.common_functions\<close>) are not among the sources. The spec gives
  every timepoint a balancing segment per balancing type, says whether the timepoint
  is the first of its segment, and gives the segment one boundary type (circular,
  linear or linked); the fields \<open>first_timepoint\<close> and \<open>boundary\<close> hold these.

  The parameters of the temporal and project modules (\<open>hrs_in_tmp\<close>, \<open>tmp_weight\<close>,
  \<open>period\<close>, \<open>horizon\<close>, \<open>technology\<close>, \<open>load_zone\<close>, the efficiencies) have a value
  for every index. \<open>prev_tmp\<close> has no timepoint where there is no previous one. The
  linked parameters have the values that were loaded, if any. \<open>STOR_LINKED_TMPS\<close> is
  an attribute of the model only when another module declared it (this module declares
  \<open>STOR_H2_LINKED_TMPS\<close>); \<open>GEN_H2_OPR_TMPS\<close>, \<open>Gen_H2_Charge_MW\<close> and \<open>Gen_H2_MW\<close>
  likewise belong to another module. \<open>solution\<close> is the value of every variable of
  this module after the solve.
\<close>

record stor_H2_model =
  balancing_type_project :: "project \<Rightarrow> string"
  first_timepoint :: "timepoint \<Rightarrow> string \<Rightarrow> bool"
  boundary :: "timepoint \<Rightarrow> string \<Rightarrow> string"
  prev_tmp :: "timepoint \<times> string \<rightharpoonup> timepoint"
  hrs_in_tmp :: "timepoint \<Rightarrow> real"
  tmp_weight :: "timepoint \<Rightarrow> real"
  period :: "timepoint \<Rightarrow> period"
  horizon :: "timepoint \<times> string \<Rightarrow> int"
  technology :: "project \<Rightarrow> string"
  load_zone :: "project \<Rightarrow> string"
  STOR_H2_OPR_TMPS :: "(project \<times> timepoint) list"
  STOR_H2_LINKED_TMPS :: "(project \<times> int) list"
  STOR_LINKED_TMPS :: "(project \<times> int) list option"
  stor_H2_charging_efficiency :: "project \<Rightarrow> real"
  stor_H2_discharging_efficiency :: "project \<Rightarrow> real"
  hrs_in_linked_tmp :: "int \<rightharpoonup> real"
  stor_linked_starting_H2_in_storage :: "project \<times> int \<rightharpoonup> real"
  stor_H2_linked_discharge :: "project \<times> int \<rightharpoonup> real"
  stor_H2_linked_charge :: "project \<times> int \<rightharpoonup> real"
  solution :: valuation
  GEN_H2_OPR_TMPS :: "(project \<times> timepoint) list option"
  Gen_H2_Charge_MW :: "(project \<times> timepoint \<rightharpoonup> real) option"
  Gen_H2_MW :: "(project \<times> timepoint \<rightharpoonup> real) option"

definition check_if_first_timepoint :: "stor_H2_model \<Rightarrow> timepoint \<Rightarrow> string \<Rightarrow> bool" where
  "check_if_first_timepoint m tmp balancing_type = first_timepoint m tmp balancing_type"

definition check_boundary_type :: "stor_H2_model \<Rightarrow> timepoint \<Rightarrow> string \<Rightarrow> string \<Rightarrow> bool" where
  "check_boundary_type m tmp balancing_type boundary_type =
     (boundary m tmp balancing_type = boundary_type)"

text \<open>Reading a parameter at an index: an index without a value raises.\<close>

definition param :: "string \<Rightarrow> ('k \<rightharpoonup> real) \<Rightarrow> 'k \<Rightarrow> py_error + expr" where
  "param name values k = (case values k of None \<Rightarrow> Inl (KeyError name) | Some x \<Rightarrow> Inr (Num x))"

text \<open>A variable of this module is indexed by \<open>STOR_H2_OPR_TMPS\<close>.\<close>

definition stor_H2_var :: "stor_H2_model \<Rightarrow> string \<Rightarrow> project \<Rightarrow> timepoint \<Rightarrow> py_error + expr" where
  "stor_H2_var m name s tmp =
     (if (s, tmp) \<in> set (STOR_H2_OPR_TMPS m) then Inr (Var name s tmp) else Inl (KeyError name))"

subsection \<open>The tracking rule\<close>

text \<open>
  The local variables of \<open>H2_tracking_rule\<close> that hold the previous state. A local
  that the branch taken did not assign is \<open>None\<close>.
\<close>

record previous_state =
  prev_tmp_hrs_in_tmp :: expr
  prev_tmp_weight :: "expr option"
  prev_tmp_starting_energy_in_storage :: expr
  prev_tmp_discharge :: expr
  prev_tmp_charge :: expr

text \<open>The branch for the first timepoint of a segment with boundary type \<open>linked\<close>.\<close>

definition linked_previous_state :: "stor_H2_model \<Rightarrow> project \<Rightarrow> py_error + previous_state" where
  "linked_previous_state m s =
     (case param ''hrs_in_linked_tmp'' (hrs_in_linked_tmp m) 0 of
        Inl e \<Rightarrow> Inl e
      | Inr hrs \<Rightarrow>
     (case param ''stor_linked_starting_H2_in_storage''
             (stor_linked_starting_H2_in_storage m) (s, 0) of
        Inl e \<Rightarrow> Inl e
      | Inr energy \<Rightarrow>
     (case param ''stor_H2_linked_discharge'' (stor_H2_linked_discharge m) (s, 0) of
        Inl e \<Rightarrow> Inl e
      | Inr discharge \<Rightarrow>
     (case param ''stor_H2_linked_charge'' (stor_H2_linked_charge m) (s, 0) of
        Inl e \<Rightarrow> Inl e
      | Inr charge \<Rightarrow>
          Inr \<lparr> prev_tmp_hrs_in_tmp = hrs,
                prev_tmp_weight = None,
                prev_tmp_starting_energy_in_storage = energy,
                prev_tmp_discharge = discharge,
                prev_tmp_charge = charge \<rparr>))))"

text \<open>The other branch: the previous timepoint of the same subproblem.\<close>

definition own_previous_state ::
  "stor_H2_model \<Rightarrow> project \<Rightarrow> timepoint \<Rightarrow> py_error + previous_state" where
  "own_previous_state m s tmp =
     (case prev_tmp m (tmp, balancing_type_project m s) of
        None \<Rightarrow> Inl (KeyError ''hrs_in_tmp'')
      | Some prev \<Rightarrow>
     (case stor_H2_var m ''Stor_Starting_H2_in_Storage_MWh'' s prev of
        Inl e \<Rightarrow> Inl e
      | Inr energy \<Rightarrow>
     (case stor_H2_var m ''Stor_H2_Discharge_MW'' s prev of
        Inl e \<Rightarrow> Inl e
      | Inr discharge \<Rightarrow>
     (case stor_H2_var m ''Stor_H2_Charge_MW'' s prev of
        Inl e \<Rightarrow> Inl e
      | Inr charge \<Rightarrow>
          Inr \<lparr> prev_tmp_hrs_in_tmp = Num (hrs_in_tmp m prev),
                prev_tmp_weight = Some (Num (tmp_weight m prev)),
                prev_tmp_starting_energy_in_storage = energy,
                prev_tmp_discharge = discharge,
                prev_tmp_charge = charge \<rparr>))))"

text \<open>
  The \<open>return\<close> statement, shared by both branches. It reads the variable of the
  current timepoint, then the locals from left to right; the division by the
  discharging efficiency comes last and raises when the efficiency is 0.
\<close>

definition tracking_equation ::
  "stor_H2_model \<Rightarrow> project \<Rightarrow> timepoint \<Rightarrow> previous_state \<Rightarrow> py_error + constraint" where
  "tracking_equation m s tmp prev =
     (case stor_H2_var m ''Stor_Starting_H2_in_Storage_MWh'' s tmp of
        Inl e \<Rightarrow> Inl e
      | Inr current \<Rightarrow>
     (case prev_tmp_weight prev of
        None \<Rightarrow> Inl (UnboundLocalError ''prev_tmp_weight'')
      | Some weight \<Rightarrow>
          if stor_H2_discharging_efficiency m s = 0 then Inl ZeroDivisionError
          else
            Inr (Eq current
              (Sub
                (Add (prev_tmp_starting_energy_in_storage prev)
                   (Mul (Mul (Mul (prev_tmp_charge prev) (prev_tmp_hrs_in_tmp prev)) weight)
                      (Num (stor_H2_charging_efficiency m s))))
                (Div (Mul (Mul (prev_tmp_discharge prev) (prev_tmp_hrs_in_tmp prev)) weight)
                   (Num (stor_H2_discharging_efficiency m s)))))))"

definition H2_tracking_rule :: "stor_H2_model \<Rightarrow> project \<Rightarrow> timepoint \<Rightarrow> py_error + constraint" where
  "H2_tracking_rule m s tmp =
     (if check_if_first_timepoint m tmp (balancing_type_project m s)
         \<and> check_boundary_type m tmp (balancing_type_project m s) ''linear''
      then Inr Skip
      else
        (case
           (if check_if_first_timepoint m tmp (balancing_type_project m s)
               \<and> check_boundary_type m tmp (balancing_type_project m s) ''linked''
            then linked_previous_state m s
            else own_previous_state m s tmp)
         of
           Inl e \<Rightarrow> Inl e
         | Inr prev \<Rightarrow> tracking_equation m s tmp prev))"

subsection \<open>Loading the linked parameters\<close>

definition linked_inputs_filename :: "string \<Rightarrow> int \<Rightarrow> string \<Rightarrow> path" where
  "linked_inputs_filename scenario_directory subproblem stage =
     [Name scenario_directory, Number subproblem, Name stage, Name ''inputs'',
      Name ''stor_H2_linked_timepoint_params.tab'']"

text \<open>
  \<open>load_model_data\<close> of \<open>stor_H2.py\<close>. The helper \<open>load_optype_model_data\<close> is not
  among the sources and \<open>data_portal.load\<close> is Pyomo's; both are parameters. The
  argument \<open>index=mod.STOR_LINKED_TMPS\<close> is read before \<open>data_portal.load\<close> is called.
\<close>

definition load_model_data ::
  "(stor_H2_model \<Rightarrow> py_error + stor_H2_model) \<Rightarrow> (table \<Rightarrow> stor_H2_model \<Rightarrow> py_error + stor_H2_model)
    \<Rightarrow> filesystem \<Rightarrow> stor_H2_model \<Rightarrow> string \<Rightarrow> int \<Rightarrow> string \<Rightarrow> py_error + stor_H2_model" where
  "load_model_data load_optype_model_data data_portal_load fs m scenario_directory subproblem stage =
     (case load_optype_model_data m of
        Inl e \<Rightarrow> Inl e
      | Inr m1 \<Rightarrow>
          (case fs (linked_inputs_filename scenario_directory subproblem stage) of
             Some file \<Rightarrow>
               (case STOR_LINKED_TMPS m1 of
                  None \<Rightarrow> Inl (AttributeError ''STOR_LINKED_TMPS'')
                | Some index \<Rightarrow> data_portal_load file m1)
           | None \<Rightarrow> Inr m1))"

subsection \<open>Exporting the results\<close>

definition dispatch_header :: "string list" where
  "dispatch_header =
     [''project'', ''period'', ''balancing_type_project'', ''horizon'', ''timepoint'',
      ''timepoint_weight'', ''number_of_hours_in_timepoint'', ''technology'', ''load_zone'',
      ''H2_stor_mwh'', ''H2_charge_mw'', ''H2_discharge_mw'']"

definition dispatch_row :: "stor_H2_model \<Rightarrow> project \<times> timepoint \<Rightarrow> cell list" where
  "dispatch_row m = (\<lambda>(p, tmp).
     [Text p,
      Whole (period m tmp),
      Text (balancing_type_project m p),
      Whole (horizon m (tmp, balancing_type_project m p)),
      Whole tmp,
      Decimal (tmp_weight m tmp),
      Decimal (hrs_in_tmp m tmp),
      Text (technology m p),
      Text (load_zone m p),
      Decimal (solution m ''Stor_Starting_H2_in_Storage_MWh'' p tmp),
      Decimal (solution m ''Stor_H2_Charge_MW'' p tmp),
      Decimal (solution m ''Stor_H2_Discharge_MW'' p tmp)])"

definition dispatch_filename :: "string \<Rightarrow> int \<Rightarrow> string \<Rightarrow> path" where
  "dispatch_filename scenario_directory subproblem stage =
     [Name scenario_directory, Number subproblem, Name stage, Name ''results'',
      Name ''dispatch_stor_H2.csv'']"

text \<open>The file that \<open>export_results\<close> opens in the next subproblem's inputs directory.\<close>

definition exported_linked_filename :: "string \<Rightarrow> int \<Rightarrow> string \<Rightarrow> path" where
  "exported_linked_filename scenario_directory subproblem stage =
     [Name scenario_directory, Number (subproblem + 1), Name stage, Name ''inputs'',
      Name ''gen_H2_linked_timepoint_params.tab'']"

definition exported_linked_header :: "string list" where
  "exported_linked_header = [''project'', ''linked_timepoint'', ''linked_charge'', ''linked_H2'']"

text \<open>\<open>value(mod.X[p, tmp])\<close> for a variable \<open>X\<close> of another module.\<close>

definition other_module_value ::
  "string \<Rightarrow> (project \<times> timepoint \<rightharpoonup> real) option \<Rightarrow> project \<Rightarrow> timepoint \<Rightarrow> py_error + real" where
  "other_module_value name component p tmp =
     (case component of
        None \<Rightarrow> Inl (AttributeError name)
      | Some values \<Rightarrow> (case values (p, tmp) of None \<Rightarrow> Inl (KeyError name) | Some x \<Rightarrow> Inr x))"

text \<open>
  The rows written for the timepoints to link, and the exception that ended the loop,
  if one did: the rows written before it stay in the file.
\<close>

fun linked_rows ::
  "stor_H2_model \<Rightarrow> timepoint list \<Rightarrow> (timepoint \<rightharpoonup> int) \<Rightarrow> (project \<times> timepoint) list
    \<Rightarrow> cell list list \<times> py_error option" where
  "linked_rows m tmps_to_link tmp_linked_tmp_dict [] = ([], None)"
| "linked_rows m tmps_to_link tmp_linked_tmp_dict ((p, tmp) # rest) =
     (if tmp \<in> set tmps_to_link then
        (case tmp_linked_tmp_dict tmp of
           None \<Rightarrow> ([], Some (KeyError ''tmp_linked_tmp_dict''))
         | Some linked_tmp \<Rightarrow>
        (case other_module_value ''Gen_H2_Charge_MW'' (Gen_H2_Charge_MW m) p tmp of
           Inl e \<Rightarrow> ([], Some e)
         | Inr charge \<Rightarrow>
        (case other_module_value ''Gen_H2_MW'' (Gen_H2_MW m) p tmp of
           Inl e \<Rightarrow> ([], Some e)
         | Inr h2 \<Rightarrow>
             (case linked_rows m tmps_to_link tmp_linked_tmp_dict rest of
                (written, raised) \<Rightarrow>
                  ([Text p, Whole linked_tmp, Decimal (max charge 0), Decimal (max h2 0)] # written, raised)))))
      else linked_rows m tmps_to_link tmp_linked_tmp_dict rest)"

text \<open>
  \<open>export_results\<close> of \<open>stor_H2.py\<close>. The helper \<open>check_for_tmps_to_link\<close> is not
  among the sources; its two results, \<open>tmps_to_link\<close> and \<open>tmp_linked_tmp_dict\<close>, are
  parameters. The result is the file system afterwards and the exception raised, if any.
\<close>

definition export_results ::
  "stor_H2_model \<Rightarrow> filesystem \<Rightarrow> string \<Rightarrow> int \<Rightarrow> string \<Rightarrow> timepoint list \<Rightarrow> (timepoint \<rightharpoonup> int)
    \<Rightarrow> filesystem \<times> py_error option" where
  "export_results m fs scenario_directory subproblem stage tmps_to_link tmp_linked_tmp_dict =
     (let fs1 = fs(dispatch_filename scenario_directory subproblem stage \<mapsto>
                 \<lparr> header = dispatch_header, rows = map (dispatch_row m) (STOR_H2_OPR_TMPS m) \<rparr>)
      in
        if tmps_to_link \<noteq> [] then
          (case GEN_H2_OPR_TMPS m of
             None \<Rightarrow>
               (fs1(exported_linked_filename scenario_directory subproblem stage \<mapsto>
                    \<lparr> header = exported_linked_header, rows = [] \<rparr>),
                Some (AttributeError ''GEN_H2_OPR_TMPS''))
           | Some opr_tmps \<Rightarrow>
               (case linked_rows m tmps_to_link tmp_linked_tmp_dict (sort opr_tmps) of
                  (written, raised) \<Rightarrow>
                    (fs1(exported_linked_filename scenario_directory subproblem stage \<mapsto>
                         \<lparr> header = exported_linked_header, rows = written \<rparr>),
                     raised)))
        else (fs1, None))"

section \<open>Capacity types \<open>gen_ccs_new\<close>, \<open>stor_ccs_new_lin\<close> and \<open>gen_ccs_spec\<close>\<close>

text \<open>
  Modelled from the spec: \<open>operational_periods_by_project_vintage\<close> and
  \<open>project_operational_periods\<close> (\<open>capacity_types.common_methods\<close>) are not among the
  sources. The spec's resolver returns the periods whose start year lies in the
  right-open interval from the vintage's start year to that year plus the lifetime;
  the operational periods of a project are the union over its vintages.
\<close>

definition operational_periods_by_project_vintage ::
  "period list \<Rightarrow> (period \<Rightarrow> int) \<Rightarrow> (period \<Rightarrow> int) \<Rightarrow> period \<Rightarrow> real \<Rightarrow> period list" where
  "operational_periods_by_project_vintage periods start_year end_year vintage lifetime_yrs =
     filter (\<lambda>p. start_year vintage \<le> start_year p
                \<and> real_of_int (start_year p) < real_of_int (start_year vintage) + lifetime_yrs)
       periods"

definition project_operational_periods ::
  "(project \<times> period) list \<Rightarrow> period list list \<Rightarrow> (project \<times> period) list" where
  "project_operational_periods project_vintages_set operational_periods_by_vintage =
     list_of_set (concat (map (\<lambda>((g, v), ps). map (\<lambda>p. (g, p)) ps)
       (zip project_vintages_set operational_periods_by_vintage)))"

record gen_ccs_new_model = investment_periods +
  period_start_year :: "period \<Rightarrow> int"
  period_end_year :: "period \<Rightarrow> int"
  GEN_CCS_NEW_VNTS :: "(project \<times> period) list"
  gen_ccs_new_gen_lifetime_yrs_by_vintage :: "project \<times> period \<rightharpoonup> real"
  gen_ccs_new_ccs_lifetime_yrs_by_vintage :: "project \<times> period \<rightharpoonup> real"

definition operational_periods_by_gen_vintage ::
  "gen_ccs_new_model \<Rightarrow> project \<Rightarrow> period \<Rightarrow> py_error + period list" where
  "operational_periods_by_gen_vintage m prj v =
     (case gen_ccs_new_gen_lifetime_yrs_by_vintage m (prj, v) of
        None \<Rightarrow> Inl (KeyError ''gen_ccs_new_gen_lifetime_yrs_by_vintage'')
      | Some lifetime_yrs \<Rightarrow>
          Inr (operational_periods_by_project_vintage (PERIODS m) (period_start_year m)
                 (period_end_year m) v lifetime_yrs))"

definition operational_periods_by_ccs_vintage ::
  "gen_ccs_new_model \<Rightarrow> project \<Rightarrow> period \<Rightarrow> py_error + period list" where
  "operational_periods_by_ccs_vintage m prj v =
     (case gen_ccs_new_ccs_lifetime_yrs_by_vintage m (prj, v) of
        None \<Rightarrow> Inl (KeyError ''gen_ccs_new_ccs_lifetime_yrs_by_vintage'')
      | Some lifetime_yrs \<Rightarrow>
          Inr (operational_periods_by_project_vintage (PERIODS m) (period_start_year m)
                 (period_end_year m) v lifetime_yrs))"

text \<open>
  The derived sets \<open>GEN_CCS_NEW_GEN_OPR_PRDS\<close> and \<open>GEN_CCS_NEW_CCS_OPR_PRDS\<close>: the
  indexed set of every vintage is built from its rule, then handed to
  \<open>project_operational_periods\<close>.
\<close>

definition gen_ccs_new_gen_operational_periods ::
  "gen_ccs_new_model \<Rightarrow> py_error + (project \<times> period) list" where
  "gen_ccs_new_gen_operational_periods m =
     (case collect (\<lambda>(prj, v). operational_periods_by_gen_vintage m prj v) (GEN_CCS_NEW_VNTS m) of
        Inl e \<Rightarrow> Inl e
      | Inr by_vintage \<Rightarrow> Inr (project_operational_periods (GEN_CCS_NEW_VNTS m) by_vintage))"

definition gen_ccs_new_ccs_operational_periods ::
  "gen_ccs_new_model \<Rightarrow> py_error + (project \<times> period) list" where
  "gen_ccs_new_ccs_operational_periods m =
     (case collect (\<lambda>(prj, v). operational_periods_by_ccs_vintage m prj v) (GEN_CCS_NEW_VNTS m) of
        Inl e \<Rightarrow> Inl e
      | Inr by_vintage \<Rightarrow> Inr (project_operational_periods (GEN_CCS_NEW_VNTS m) by_vintage))"

text \<open>\<open>getattr(mod, name)\<close> for the two-dimensional sets that \<open>gen_ccs_new.py\<close> declares.\<close>

definition gen_ccs_new_set :: "gen_ccs_new_model \<Rightarrow> string \<Rightarrow> py_error + (project \<times> period) list" where
  "gen_ccs_new_set m name =
     (if name = ''GEN_CCS_NEW_VNTS'' then Inr (GEN_CCS_NEW_VNTS m)
      else if name = ''GEN_CCS_NEW_CCS_OPR_PRDS'' then gen_ccs_new_ccs_operational_periods m
      else if name = ''GEN_CCS_NEW_GEN_OPR_PRDS'' then gen_ccs_new_gen_operational_periods m
      else Inl (AttributeError name))"

text \<open>The \<open>Dynamic Components\<close> step of each module's \<open>add_model_components\<close>.\<close>

definition gen_ccs_new_add_model_components :: "dynamic_components \<Rightarrow> dynamic_components" where
  "gen_ccs_new_add_model_components d =
     d\<lparr> capacity_type_operational_period_sets :=
          capacity_type_operational_period_sets d @ [''GEN_CCS_NEW_VNTS''] \<rparr>"

definition stor_ccs_new_lin_add_model_components :: "dynamic_components \<Rightarrow> dynamic_components" where
  "stor_ccs_new_lin_add_model_components d =
     d\<lparr> capacity_type_operational_period_sets :=
          capacity_type_operational_period_sets d @ [''STOR_CCS_NEW_LIN_OPR_PRDS''] \<rparr>"

definition gen_ccs_spec_add_model_components :: "dynamic_components \<Rightarrow> dynamic_components" where
  "gen_ccs_spec_add_model_components d =
     d\<lparr> capacity_type_operational_period_sets :=
          capacity_type_operational_period_sets d @ [''GEN_CCS_SPEC_OPR_PRDS''] \<rparr>"

definition mass_new_lin_add_model_components :: "dynamic_components \<Rightarrow> dynamic_components" where
  "mass_new_lin_add_model_components d =
     d\<lparr> tx_capacity_type_operational_period_sets :=
          tx_capacity_type_operational_period_sets d @ [''MASS_NEW_LIN_OPR_PRDS''] \<rparr>"

section \<open>The capacity lifecycle aggregator\<close>

text \<open>
  Modelled from the spec: the aggregator that joins the registered operational-period
  sets into the project operational periods (\<open>gridpath.project.capacity\<close>) is not among
  the sources. The spec has it union the named relations of the registered capacity
  types into one duplicate-free relation, with the periods of a project and the
  projects of a period derived from it, and has it stop with a fatal error that names
  the project and the period when a pair is claimed by two contributions.
\<close>

datatype build_error = OperationalPeriodConflict project period

fun union_contributions ::
  "(project \<times> period) list \<Rightarrow> (string \<times> (project \<times> period) list) list
    \<Rightarrow> build_error + (project \<times> period) list" where
  "union_contributions relation [] = Inr relation"
| "union_contributions relation ((name, contribution) # rest) =
     (case find (\<lambda>pair. pair \<in> set relation) contribution of
        Some (prj, prd) \<Rightarrow> Inl (OperationalPeriodConflict prj prd)
      | None \<Rightarrow> union_contributions (relation @ contribution) rest)"

record operational_periods_relation =
  PRJ_OPR_PRDS :: "(project \<times> period) list"
  OPR_PRDS_BY_PRJ :: "project \<Rightarrow> period list"
  OPR_PRJS_IN_PRD :: "period \<Rightarrow> project list"

definition capacity_lifecycle_aggregator ::
  "(string \<times> (project \<times> period) list) list \<Rightarrow> build_error + operational_periods_relation" where
  "capacity_lifecycle_aggregator contributions =
     (case union_contributions [] contributions of
        Inl e \<Rightarrow> Inl e
      | Inr relation \<Rightarrow>
          Inr \<lparr> PRJ_OPR_PRDS = relation,
                OPR_PRDS_BY_PRJ = (\<lambda>prj. map snd (filter (\<lambda>(g, p). g = prj) relation)),
                OPR_PRJS_IN_PRD = (\<lambda>prd. map fst (filter (\<lambda>(g, p). p = prd) relation)) \<rparr>)"

section \<open>Example inputs\<close>







text \<open>A line with two vintages of 10 years each, and the same line with the vintages swapped.\<close>

definition line1_model :: mass_new_lin_model where
  "line1_model =
     \<lparr> PERIODS = [2020, 2025, 2030, 2035, 2040],
       MASS_NEW_LIN_VNTS = [(''Line1'', 2020), (''Line1'', 2030)],
       mass_new_lin_lifetime_yrs = [(''Line1'', 2020) \<mapsto> 10, (''Line1'', 2030) \<mapsto> 10],
       OPR_PRDS_BY_MASS_NEW_LIN_VINTAGE =
         [(''Line1'', 2020) \<mapsto> [2020, 2025], (''Line1'', 2030) \<mapsto> [2030, 2035]] \<rparr>"

definition line1_swapped :: mass_new_lin_model where
  "line1_swapped = line1_model\<lparr> MASS_NEW_LIN_VNTS := [(''Line1'', 2030), (''Line1'', 2020)] \<rparr>"

text \<open>A registry with nothing registered, and one zone with one timepoint.\<close>

definition empty_registry :: dynamic_components where
  "empty_registry =
     \<lparr> capacity_type_operational_period_sets = [],
       storage_only_capacity_type_operational_period_sets = [],
       tx_capacity_type_operational_period_sets = [],
       ccs_balance_production_components = [],
       ccs_balance_consumption_components = [] \<rparr>"

definition zone1_model :: ccs_balance_model where
  "zone1_model =
     \<lparr> LOAD_ZONES = [''Zone1''],
       TMPS = [1],
       allow_over_ccs = (\<lambda>z. 1),
       allow_unserved_ccs = (\<lambda>z. 0),
       expressions =
         [''CCS_Capture_in_Zone_Tonne'' \<mapsto> [(''Zone1'', 1) \<mapsto> Var ''Capture'' ''Zone1'' 1],
          ''CCS_Consumption_in_Zone_Tonne'' \<mapsto> [(''Zone1'', 1) \<mapsto> Var ''Consume'' ''Zone1'' 1]] \<rparr>"

definition zone1_registry :: dynamic_components where
  "zone1_registry =
     empty_registry\<lparr> ccs_balance_production_components := [''CCS_Capture_in_Zone_Tonne''],
                     ccs_balance_consumption_components := [''CCS_Consumption_in_Zone_Tonne''] \<rparr>"

definition shift1_model :: dr_new_model where
  "shift1_model = \<lparr> PERIODS = [2020, 2030, 2040], DR_NEW = [''Shift1''] \<rparr>"

text \<open>
  A storage project with two timepoints in one balancing segment whose boundary type is
  \<open>linked\<close>. Timepoint 1 is the first of the segment; the values handed over by the
  previous subproblem are present, with 50 as the H2 in storage.
\<close>

definition h2store_model :: stor_H2_model where
  "h2store_model =
     \<lparr> balancing_type_project = (\<lambda>s. ''day''),
       first_timepoint = (\<lambda>tmp balancing_type. tmp = 1),
       boundary = (\<lambda>tmp balancing_type. ''linked''),
       prev_tmp = [(2, ''day'') \<mapsto> 1],
       hrs_in_tmp = (\<lambda>tmp. 1),
       tmp_weight = (\<lambda>tmp. 1),
       period = (\<lambda>tmp. 2030),
       horizon = (\<lambda>(tmp, balancing_type). 1),
       technology = (\<lambda>s. ''H2_Storage''),
       load_zone = (\<lambda>s. ''Zone1''),
       STOR_H2_OPR_TMPS = [(''H2Store'', 1), (''H2Store'', 2)],
       STOR_H2_LINKED_TMPS = [(''H2Store'', 0)],
       STOR_LINKED_TMPS = None,
       stor_H2_charging_efficiency = (\<lambda>s. 1),
       stor_H2_discharging_efficiency = (\<lambda>s. 1),
       hrs_in_linked_tmp = [0 \<mapsto> 1],
       stor_linked_starting_H2_in_storage = [(''H2Store'', 0) \<mapsto> 50],
       stor_H2_linked_discharge = [(''H2Store'', 0) \<mapsto> 0],
       stor_H2_linked_charge = [(''H2Store'', 0) \<mapsto> 5],
       solution = (\<lambda>name s tmp. 0),
       GEN_H2_OPR_TMPS = Some [(''Electrolyzer'', 2)],
       Gen_H2_Charge_MW = Some [(''Electrolyzer'', 2) \<mapsto> 3],
       Gen_H2_MW = Some [(''Electrolyzer'', 2) \<mapsto> 4] \<rparr>"

text \<open>The same project in a first subproblem: no linked values have been loaded.\<close>

definition h2store_first_subproblem :: stor_H2_model where
  "h2store_first_subproblem =
     h2store_model\<lparr> STOR_H2_LINKED_TMPS := [],
                    hrs_in_linked_tmp := Map.empty,
                    stor_linked_starting_H2_in_storage := Map.empty,
                    stor_H2_linked_discharge := Map.empty,
                    stor_H2_linked_charge := Map.empty \<rparr>"

text \<open>The same project with the boundary type \<open>linear\<close>.\<close>

definition h2store_linear :: stor_H2_model where
  "h2store_linear = h2store_first_subproblem\<lparr> boundary := (\<lambda>tmp balancing_type. ''linear'') \<rparr>"

text \<open>A \<open>gen_ccs_new\<close> project with one vintage, 2020, that lasts 10 years.\<close>

definition gas_ccs_model :: gen_ccs_new_model where
  "gas_ccs_model =
     \<lparr> PERIODS = [2020, 2025, 2030],
       period_start_year = (\<lambda>p. p),
       period_end_year = (\<lambda>p. p + 5),
       GEN_CCS_NEW_VNTS = [(''Gas_CCS'', 2020)],
       gen_ccs_new_gen_lifetime_yrs_by_vintage = [(''Gas_CCS'', 2020) \<mapsto> 10],
       gen_ccs_new_ccs_lifetime_yrs_by_vintage = [(''Gas_CCS'', 2020) \<mapsto> 10] \<rparr>"

text \<open>The spec's scenario of two capacity types that both claim (ProjectX, 2030).\<close>

definition projectx_contributions :: "(string \<times> (project \<times> period) list) list" where
  "projectx_contributions =
     [(''STOR_CCS_NEW_LIN_OPR_PRDS'', [(''ProjectX'', 2020), (''ProjectX'', 2030)]),
      (''GEN_CCS_SPEC_OPR_PRDS'', [(''ProjectX'', 2030)])]"

section \<open>The operational window of a vintage\<close>

text \<open>
  With a lifetime for the vintage, the loop returns the periods that pass the test, in
  the order of \<open>PERIODS\<close>.
\<close>

lemma operational_periods_loop_filter:
  assumes "lifetime (g, v) = Some l"
  shows "operational_periods_loop lifetime g v ps acc =
           Inr (acc @ filter (\<lambda>p. v \<le> p \<and> real_of_int p < real_of_int v + l) ps)"
  using assms by (induction ps arbitrary: acc) simp_all

lemma operational_periods_filter:
  assumes "mass_new_lin_lifetime_yrs m (g, v) = Some l"
  shows "operational_periods_by_new_build_transmission_vintage m g v =
           Inr (filter (\<lambda>p. v \<le> p \<and> real_of_int p < real_of_int v + l) (PERIODS m))"
  unfolding operational_periods_by_new_build_transmission_vintage_def
  using assms by (simp add: operational_periods_loop_filter)



subsection \<open>With Python's arithmetic\<close>

text \<open>
  When Python's sum of the vintage and the lifetime is a finite double, the loop keeps
  the periods from the vintage on that lie below it; with the sum computed exactly it
  returns what the loop with exact addition returns.
\<close>

lemma py_loop_finite:
  assumes "int_plus_float v l = Inr (Finite bound)"
  shows "py_operational_periods_loop int_plus_float (Inr l) v ps acc =
           Inr (acc @ filter (\<lambda>p. v \<le> p \<and> real_of_int p < bound) ps)"
  using assms by (induction ps arbitrary: acc) (simp_all add: int_less_float_def)

lemma py_loop_exact:
  assumes "int_plus_float v l = Inr (Finite (real_of_int v + l))"
  shows "py_operational_periods_loop int_plus_float (Inr l) v ps acc =
           Inr (acc @ filter (\<lambda>p. v \<le> p \<and> real_of_int p < real_of_int v + l) ps)"
  using assms by (rule py_loop_finite)

lemma py_operational_periods_exact:
  assumes "(g, v) \<in> set (MASS_NEW_LIN_VNTS m)"
    and "mass_new_lin_lifetime_yrs m (g, v) = Some l"
    and "int_plus_float v l = Inr (Finite (real_of_int v + l))"
  shows "py_operational_periods_by_new_build_transmission_vintage int_plus_float m g v =
           Inr (filter (\<lambda>p. v \<le> p \<and> real_of_int p < real_of_int v + l) (PERIODS m))"
  using assms
  by (simp add: py_operational_periods_by_new_build_transmission_vintage_def lifetime_yrs_at_def
      py_loop_exact)

lemma py_operational_periods_agree:
  assumes "(g, v) \<in> set (MASS_NEW_LIN_VNTS m)"
    and "mass_new_lin_lifetime_yrs m (g, v) = Some l"
  shows "py_operational_periods_by_new_build_transmission_vintage
           (\<lambda>v l. Inr (Finite (real_of_int v + l))) m g v =
         operational_periods_by_new_build_transmission_vintage m g v"
  using assms by (simp add: py_operational_periods_exact operational_periods_filter)

text \<open>
  Whatever the rounding, a sum that does not decrease with the lifetime gives a window
  that does not shrink.
\<close>

lemma py_operational_periods_monotone:
  assumes "(g, v) \<in> set (MASS_NEW_LIN_VNTS m1)" and "(g, v) \<in> set (MASS_NEW_LIN_VNTS m2)"
    and "PERIODS m2 = PERIODS m1"
    and "mass_new_lin_lifetime_yrs m1 (g, v) = Some l1"
    and "mass_new_lin_lifetime_yrs m2 (g, v) = Some l2"
    and "int_plus_float v l1 = Inr (Finite b1)" and "int_plus_float v l2 = Inr (Finite b2)"
    and "b1 \<le> b2"
  shows "\<exists>w1 w2.
           py_operational_periods_by_new_build_transmission_vintage int_plus_float m1 g v = Inr w1
         \<and> py_operational_periods_by_new_build_transmission_vintage int_plus_float m2 g v = Inr w2
         \<and> set w1 \<subseteq> set w2"
proof -
  let ?w1 = "filter (\<lambda>p. v \<le> p \<and> real_of_int p < b1) (PERIODS m1)"
  let ?w2 = "filter (\<lambda>p. v \<le> p \<and> real_of_int p < b2) (PERIODS m2)"
  have "py_operational_periods_by_new_build_transmission_vintage int_plus_float m1 g v = Inr ?w1"
    using assms(1,4,6)
    by (simp add: py_operational_periods_by_new_build_transmission_vintage_def lifetime_yrs_at_def
        py_loop_finite)
  moreover
  have "py_operational_periods_by_new_build_transmission_vintage int_plus_float m2 g v = Inr ?w2"
    using assms(2,5,7)
    by (simp add: py_operational_periods_by_new_build_transmission_vintage_def lifetime_yrs_at_def
        py_loop_finite)
  moreover have "set ?w1 \<subseteq> set ?w2" using assms(3,8) by auto
  ultimately show ?thesis by blast
qed








section \<open>The union over the vintages\<close>

lemma line_period_pairs_total:
  assumes "set vnts \<subseteq> dom opr"
  shows "line_period_pairs opr vnts = Inr (concat (map (\<lambda>gv. map (\<lambda>p. (fst gv, p)) (the (opr gv))) vnts))"
  using assms
proof (induction vnts)
  case Nil
  then show ?case by simp
next
  case (Cons gv vnts)
  obtain g v where gv: "gv = (g, v)" by (cases gv)
  from Cons.prems gv obtain ps where ps: "opr (g, v) = Some ps" by auto
  from Cons have "line_period_pairs opr vnts =
      Inr (concat (map (\<lambda>gv. map (\<lambda>p. (fst gv, p)) (the (opr gv))) vnts))" by simp
  with gv ps show ?case by simp
qed

lemma new_build_total:
  assumes "set (MASS_NEW_LIN_VNTS m) \<subseteq> dom (OPR_PRDS_BY_MASS_NEW_LIN_VINTAGE m)"
  shows "new_build_transmission_operational_periods m =
    Inr (remdups (concat (map (\<lambda>gv. map (\<lambda>p. (fst gv, p)) (the (OPR_PRDS_BY_MASS_NEW_LIN_VINTAGE m gv)))
       (MASS_NEW_LIN_VNTS m))))"
  unfolding new_build_transmission_operational_periods_def list_of_set_def
  using assms by (simp add: line_period_pairs_total)

lemma two_disjoint_length:
  assumes "distinct w1" and "distinct w2" and "set w1 \<inter> set w2 = {}"
  shows "length (remdups (map (\<lambda>p. (g, p)) w1 @ map (\<lambda>p. (g, p)) w2)) = length w1 + length w2"
proof -
  have "distinct (w1 @ w2)" using assms by simp
  then have "distinct (map (\<lambda>p. (g, p)) (w1 @ w2))"
    by (simp only: distinct_map) (simp add: inj_on_def)
  then have "distinct (map (\<lambda>p. (g, p)) w1 @ map (\<lambda>p. (g, p)) w2)"
    by (simp only: map_append)
  then have "length (remdups (map (\<lambda>p. (g, p)) w1 @ map (\<lambda>p. (g, p)) w2)) =
             length (map (\<lambda>p. (g, p)) w1 @ map (\<lambda>p. (g, p)) w2)"
    by (simp only: distinct_remdups_id)
  then show ?thesis by simp
qed

text \<open>
  Claim C8. When every vintage has its indexed set of operational periods,
  \<open>new_build_transmission_operational_periods\<close> returns a list without duplicates that
  holds exactly the (line, period) pairs of the vintages' sets. For two vintages of one
  line whose sets do not overlap, its length is the sum of the two sizes. Listing the
  vintages in another order leaves the set of pairs unchanged.
\<close>

theorem C8_union_duplicate_free:
  assumes "set (MASS_NEW_LIN_VNTS m) \<subseteq> dom (OPR_PRDS_BY_MASS_NEW_LIN_VINTAGE m)"
  shows "\<exists>r. new_build_transmission_operational_periods m = Inr r
           \<and> distinct r
           \<and> set r = {(g, p). \<exists>v ps. (g, v) \<in> set (MASS_NEW_LIN_VNTS m)
                         \<and> OPR_PRDS_BY_MASS_NEW_LIN_VINTAGE m (g, v) = Some ps \<and> p \<in> set ps}
           \<and> (\<forall>g v1 v2 w1 w2.
                  MASS_NEW_LIN_VNTS m = [(g, v1), (g, v2)]
                  \<and> OPR_PRDS_BY_MASS_NEW_LIN_VINTAGE m (g, v1) = Some w1
                  \<and> OPR_PRDS_BY_MASS_NEW_LIN_VINTAGE m (g, v2) = Some w2
                  \<and> distinct w1 \<and> distinct w2 \<and> set w1 \<inter> set w2 = {}
                  \<longrightarrow> length r = length w1 + length w2)
           \<and> (\<forall>m' :: mass_new_lin_model.
                  OPR_PRDS_BY_MASS_NEW_LIN_VINTAGE m' = OPR_PRDS_BY_MASS_NEW_LIN_VINTAGE m
                  \<and> mset (MASS_NEW_LIN_VNTS m') = mset (MASS_NEW_LIN_VNTS m)
                  \<longrightarrow> (\<exists>r'. new_build_transmission_operational_periods m' = Inr r'
                         \<and> set r' = set r))"
proof -
  let ?opr = "OPR_PRDS_BY_MASS_NEW_LIN_VINTAGE m"
  let ?pairs = "\<lambda>vnts. concat (map (\<lambda>gv. map (\<lambda>p. (fst gv, p)) (the (?opr gv))) vnts)"
  let ?r = "remdups (?pairs (MASS_NEW_LIN_VNTS m))"
  have run: "new_build_transmission_operational_periods m = Inr ?r"
    by (rule new_build_total [OF assms])
  have dist: "distinct ?r" by simp
  have members: "set ?r = {(g, p). \<exists>v ps. (g, v) \<in> set (MASS_NEW_LIN_VNTS m)
                         \<and> ?opr (g, v) = Some ps \<and> p \<in> set ps}"
  proof (rule set_eqI)
    fix x :: "project \<times> period"
    obtain g p where x: "x = (g, p)" by (cases x)
    have "x \<in> set ?r \<longleftrightarrow> (\<exists>v. (g, v) \<in> set (MASS_NEW_LIN_VNTS m) \<and> p \<in> set (the (?opr (g, v))))"
      using x by (force simp: image_iff)
    also have "\<dots> \<longleftrightarrow> (\<exists>v ps. (g, v) \<in> set (MASS_NEW_LIN_VNTS m) \<and> ?opr (g, v) = Some ps \<and> p \<in> set ps)"
    proof
      assume "\<exists>v. (g, v) \<in> set (MASS_NEW_LIN_VNTS m) \<and> p \<in> set (the (?opr (g, v)))"
      then obtain v where v: "(g, v) \<in> set (MASS_NEW_LIN_VNTS m)" "p \<in> set (the (?opr (g, v)))"
        by blast
      from v(1) assms obtain ps where "?opr (g, v) = Some ps" by auto
      with v show "\<exists>v ps. (g, v) \<in> set (MASS_NEW_LIN_VNTS m) \<and> ?opr (g, v) = Some ps \<and> p \<in> set ps"
        by auto
    next
      assume "\<exists>v ps. (g, v) \<in> set (MASS_NEW_LIN_VNTS m) \<and> ?opr (g, v) = Some ps \<and> p \<in> set ps"
      then show "\<exists>v. (g, v) \<in> set (MASS_NEW_LIN_VNTS m) \<and> p \<in> set (the (?opr (g, v)))"
        by auto
    qed
    finally show "x \<in> set ?r \<longleftrightarrow> x \<in> {(g, p). \<exists>v ps. (g, v) \<in> set (MASS_NEW_LIN_VNTS m)
                         \<and> ?opr (g, v) = Some ps \<and> p \<in> set ps}"
      using x by simp
  qed
  have two: "\<forall>g v1 v2 w1 w2.
                  MASS_NEW_LIN_VNTS m = [(g, v1), (g, v2)]
                  \<and> ?opr (g, v1) = Some w1 \<and> ?opr (g, v2) = Some w2
                  \<and> distinct w1 \<and> distinct w2 \<and> set w1 \<inter> set w2 = {}
                  \<longrightarrow> length ?r = length w1 + length w2"
    by (auto simp: two_disjoint_length)
  have perm: "\<forall>m' :: mass_new_lin_model.
                  OPR_PRDS_BY_MASS_NEW_LIN_VINTAGE m' = ?opr
                  \<and> mset (MASS_NEW_LIN_VNTS m') = mset (MASS_NEW_LIN_VNTS m)
                  \<longrightarrow> (\<exists>r'. new_build_transmission_operational_periods m' = Inr r'
                         \<and> set r' = set ?r)"
  proof (intro allI impI)
    fix m' :: mass_new_lin_model
    assume h: "OPR_PRDS_BY_MASS_NEW_LIN_VINTAGE m' = ?opr
                  \<and> mset (MASS_NEW_LIN_VNTS m') = mset (MASS_NEW_LIN_VNTS m)"
    then have same: "set (MASS_NEW_LIN_VNTS m') = set (MASS_NEW_LIN_VNTS m)"
      by (auto dest: mset_eq_setD)
    with assms h have "set (MASS_NEW_LIN_VNTS m') \<subseteq> dom (OPR_PRDS_BY_MASS_NEW_LIN_VINTAGE m')"
      by simp
    from new_build_total [OF this] h
    have "new_build_transmission_operational_periods m' = Inr (remdups (?pairs (MASS_NEW_LIN_VNTS m')))"
      by simp
    moreover have "set (remdups (?pairs (MASS_NEW_LIN_VNTS m'))) = set ?r"
      using same by simp
    ultimately show "\<exists>r'. new_build_transmission_operational_periods m' = Inr r' \<and> set r' = set ?r"
      by blast
  qed
  from run dist members two perm show ?thesis by blast
qed

theorem C8_witness:
  "set (MASS_NEW_LIN_VNTS line1_model) \<subseteq> dom (OPR_PRDS_BY_MASS_NEW_LIN_VINTAGE line1_model)
   \<and> (\<exists>r. new_build_transmission_operational_periods line1_model = Inr r
          \<and> distinct r \<and> length r = 4
          \<and> (\<exists>r'. new_build_transmission_operational_periods line1_swapped = Inr r'
                \<and> set r' = set r))"
proof -
  have sub: "set (MASS_NEW_LIN_VNTS line1_model) \<subseteq> dom (OPR_PRDS_BY_MASS_NEW_LIN_VINTAGE line1_model)"
    by (simp add: line1_model_def)
  from C8_union_duplicate_free [OF sub] obtain r where
    r: "new_build_transmission_operational_periods line1_model = Inr r" "distinct r"
    and two: "\<forall>g v1 v2 w1 w2.
        MASS_NEW_LIN_VNTS line1_model = [(g, v1), (g, v2)]
        \<and> OPR_PRDS_BY_MASS_NEW_LIN_VINTAGE line1_model (g, v1) = Some w1
        \<and> OPR_PRDS_BY_MASS_NEW_LIN_VINTAGE line1_model (g, v2) = Some w2
        \<and> distinct w1 \<and> distinct w2 \<and> set w1 \<inter> set w2 = {}
        \<longrightarrow> length r = length w1 + length w2"
    and perm: "\<forall>m' :: mass_new_lin_model.
        OPR_PRDS_BY_MASS_NEW_LIN_VINTAGE m' = OPR_PRDS_BY_MASS_NEW_LIN_VINTAGE line1_model
        \<and> mset (MASS_NEW_LIN_VNTS m') = mset (MASS_NEW_LIN_VNTS line1_model)
        \<longrightarrow> (\<exists>r'. new_build_transmission_operational_periods m' = Inr r' \<and> set r' = set r)"
    by blast
  have "MASS_NEW_LIN_VNTS line1_model = [(''Line1'', 2020), (''Line1'', 2030)]
        \<and> OPR_PRDS_BY_MASS_NEW_LIN_VINTAGE line1_model (''Line1'', 2020) = Some [2020, 2025]
        \<and> OPR_PRDS_BY_MASS_NEW_LIN_VINTAGE line1_model (''Line1'', 2030) = Some [2030, 2035]
        \<and> distinct [2020, 2025 :: int] \<and> distinct [2030, 2035 :: int]
        \<and> set [2020, 2025 :: int] \<inter> set [2030, 2035] = {}"
    by (simp add: line1_model_def)
  with two have "length r = length [2020, 2025 :: int] + length [2030, 2035 :: int]"
    by blast
  then have len: "length r = 4" by simp
  have "OPR_PRDS_BY_MASS_NEW_LIN_VINTAGE line1_swapped = OPR_PRDS_BY_MASS_NEW_LIN_VINTAGE line1_model
        \<and> mset (MASS_NEW_LIN_VNTS line1_swapped) = mset (MASS_NEW_LIN_VNTS line1_model)"
    by (simp add: line1_swapped_def line1_model_def)
  with perm have "\<exists>r'. new_build_transmission_operational_periods line1_swapped = Inr r' \<and> set r' = set r"
    by blast
  with sub r len show ?thesis by blast
qed

section \<open>The aggregate CCS balance\<close>

lemma collect_total:
  assumes "\<forall>x \<in> set xs. \<exists>y. f x = Inr y"
  shows "\<exists>ys. collect f xs = Inr ys \<and> map Inr ys = map f xs"
  using assms
proof (induction xs)
  case Nil
  then show ?case by simp
next
  case (Cons x xs)
  then obtain y where y: "f x = Inr y" by auto
  from Cons obtain ys where ys: "collect f xs = Inr ys" "map Inr ys = map f xs" by auto
  from y ys show ?case by simp
qed

text \<open>
  Claim C5. For every zone and timepoint at which the registered names resolve,
  \<open>meet_ccs_rule\<close> equates the sum of the expressions named in the production registry
  with the sum of the expressions named in the consumption registry, each list taken
  in registry order. \<open>add_model_components\<close> of the module appends
  \<open>Unserved_CCS_Expression\<close> to the production registry and \<open>Over_CCS_Expression\<close> to
  the consumption registry; the rule runs when the constraint is constructed, after
  that.
\<close>

theorem C5_meet_ccs_rule:
  assumes "\<forall>c \<in> set (ccs_balance_production_components d @ ccs_balance_consumption_components d).
             \<exists>e. component_at m z tmp c = Inr e"
  shows "(\<exists>production consumption.
            map Inr production = map (component_at m z tmp) (ccs_balance_production_components d)
          \<and> map Inr consumption = map (component_at m z tmp) (ccs_balance_consumption_components d)
          \<and> meet_ccs_rule d m z tmp = Inr (Eq (py_sum production) (py_sum consumption)))
       \<and> ccs_balance_production_components (snd (ccs_balance_add_model_components m0 d0)) =
           ccs_balance_production_components d0 @ [''Unserved_CCS_Expression'']
       \<and> ccs_balance_consumption_components (snd (ccs_balance_add_model_components m0 d0)) =
           ccs_balance_consumption_components d0 @ [''Over_CCS_Expression'']"
proof -
  from assms have "\<forall>c \<in> set (ccs_balance_production_components d). \<exists>e. component_at m z tmp c = Inr e"
    by simp
  then obtain ps where ps: "collect (component_at m z tmp) (ccs_balance_production_components d) = Inr ps"
      "map Inr ps = map (component_at m z tmp) (ccs_balance_production_components d)"
    using collect_total by blast
  from assms have "\<forall>c \<in> set (ccs_balance_consumption_components d). \<exists>e. component_at m z tmp c = Inr e"
    by simp
  then obtain cs where cs: "collect (component_at m z tmp) (ccs_balance_consumption_components d) = Inr cs"
      "map Inr cs = map (component_at m z tmp) (ccs_balance_consumption_components d)"
    using collect_total by blast
  have rule: "meet_ccs_rule d m z tmp = Inr (Eq (py_sum ps) (py_sum cs))"
    by (simp add: meet_ccs_rule_def ps(1) cs(1))
  have reg: "ccs_balance_production_components (snd (ccs_balance_add_model_components m0 d0)) =
           ccs_balance_production_components d0 @ [''Unserved_CCS_Expression'']"
       "ccs_balance_consumption_components (snd (ccs_balance_add_model_components m0 d0)) =
           ccs_balance_consumption_components d0 @ [''Over_CCS_Expression'']"
    by (simp_all add: ccs_balance_add_model_components_def record_dynamic_components_def)
  from ps(2) cs(2) rule reg show ?thesis by blast
qed

text \<open>
  One zone and one timepoint, with one component of another module registered on each
  side: the constraint built from the registry that the module leaves holds both
  penalty expressions.
\<close>

theorem C5_witness:
  "meet_ccs_rule (snd (ccs_balance_add_model_components zone1_model zone1_registry))
     (fst (ccs_balance_add_model_components zone1_model zone1_registry)) ''Zone1'' 1 =
   Inr (Eq
     (Add (Add (Num 0) (Var ''Capture'' ''Zone1'' 1))
        (Mul (Num 0) (Var ''Unserved_CCS'' ''Zone1'' 1)))
     (Add (Add (Num 0) (Var ''Consume'' ''Zone1'' 1))
        (Mul (Num 1) (Var ''Over_CCS'' ''Zone1'' 1))))"
  using C5_meet_ccs_rule [of "snd (ccs_balance_add_model_components zone1_model zone1_registry)"
      "fst (ccs_balance_add_model_components zone1_model zone1_registry)" "''Zone1''" 1
      zone1_model zone1_registry]
  by (simp add: meet_ccs_rule_def ccs_balance_add_model_components_def record_dynamic_components_def
      zone1_model_def zone1_registry_def empty_registry_def component_at_def zone_tmp_expression_def
      over_ccs_expression_rule_def unserved_ccs_expression_rule_def py_sum_def)

section \<open>The energy capacity of \<open>dr_new\<close>\<close>

lemma collect_builds:
  assumes "g \<in> set (DR_NEW m)" and "set ps \<subseteq> set (PERIODS m)"
  shows "collect (DRNew_Build_MWh m g) ps = Inr (map (Var ''DRNew_Build_MWh'' g) ps)"
  using assms by (induction ps) (simp_all add: DRNew_Build_MWh_def)

lemma eval_foldl_vars:
  assumes "eval_expr \<rho> a = Some x"
  shows "eval_expr \<rho> (foldl Add a (map (Var name g) ps)) = Some (x + sum_list (map (\<rho> name g) ps))"
  using assms by (induction ps arbitrary: a x) (simp_all add: add.assoc)

lemma eval_py_sum_vars:
  "eval_expr \<rho> (py_sum (map (Var name g) ps)) = Some (sum_list (map (\<rho> name g) ps))"
  unfolding py_sum_def by (simp add: eval_foldl_vars)

lemma cumulative_mono:
  fixes f :: "int \<Rightarrow> real"
  assumes "\<And>q. 0 \<le> f q" and "p1 \<le> p2"
  shows "sum_list (map f (filter (\<lambda>q. q \<le> p1) xs)) \<le> sum_list (map f (filter (\<lambda>q. q \<le> p2) xs))"
proof (induction xs)
  case Nil
  show ?case by simp
next
  case (Cons x xs)
  show ?case
  proof (cases "x \<le> p1")
    case True
    with assms(2) have "x \<le> p2" by simp
    with True Cons show ?thesis by simp
  next
    case False
    show ?thesis
    proof (cases "x \<le> p2")
      case True
      have "0 \<le> f x" by (rule assms(1))
      with True False Cons show ?thesis by simp
    next
      case False
      with \<open>\<not> x \<le> p1\<close> Cons show ?thesis by simp
    qed
  qed
qed

lemma dr_new_rule_total:
  assumes "g \<in> set (DR_NEW m)"
  shows "dr_new_energy_capacity_rule m g p =
     Inr (py_sum (map (Var ''DRNew_Build_MWh'' g) (filter (\<lambda>prev_p. prev_p \<le> p) (PERIODS m))))"
proof -
  have "set (filter (\<lambda>prev_p. prev_p \<le> p) (PERIODS m)) \<subseteq> set (PERIODS m)" by auto
  with assms show ?thesis
    by (simp add: dr_new_energy_capacity_rule_def collect_builds)
qed

text \<open>
  Claim C10. For every \<open>dr_new\<close> project and period \<open>p\<close>, the energy capacity is the
  sum of the build variables of all periods up to and including \<open>p\<close>. With build
  variables that are not negative (their domain), the capacity of a later period is at
  least the capacity of an earlier one: what was built in a period stays in the sum of
  every later period, no lifetime ends it. Every period of the model is an operational
  period of the project.
\<close>

theorem C10_dr_new_cumulative:
  assumes "g \<in> set (DR_NEW m)"
  shows "dr_new_energy_capacity_rule m g p =
           Inr (py_sum (map (Var ''DRNew_Build_MWh'' g) (filter (\<lambda>prev_p. prev_p \<le> p) (PERIODS m))))
       \<and> (\<forall>\<rho>. \<exists>c. dr_new_energy_capacity_rule m g p = Inr c
              \<and> eval_expr \<rho> c =
                  Some (\<Sum>prev_p \<leftarrow> filter (\<lambda>prev_p. prev_p \<le> p) (PERIODS m). \<rho> ''DRNew_Build_MWh'' g prev_p))
       \<and> (\<forall>\<rho> p1 p2. (\<forall>q. 0 \<le> \<rho> ''DRNew_Build_MWh'' g q) \<and> p1 \<le> p2 \<longrightarrow>
            (\<exists>c1 c2 x1 x2. dr_new_energy_capacity_rule m g p1 = Inr c1
               \<and> dr_new_energy_capacity_rule m g p2 = Inr c2
               \<and> eval_expr \<rho> c1 = Some x1 \<and> eval_expr \<rho> c2 = Some x2 \<and> x1 \<le> x2))
       \<and> (\<forall>p'. (g, p') \<in> set (DR_NEW_OPR_PRDS m) \<longleftrightarrow> p' \<in> set (PERIODS m))"
proof -
  note total = dr_new_rule_total [OF assms]
  have vals: "\<forall>\<rho>. \<exists>c. dr_new_energy_capacity_rule m g p = Inr c
              \<and> eval_expr \<rho> c =
                  Some (\<Sum>prev_p \<leftarrow> filter (\<lambda>prev_p. prev_p \<le> p) (PERIODS m). \<rho> ''DRNew_Build_MWh'' g prev_p)"
    by (simp add: total eval_py_sum_vars)
  have mono: "\<forall>\<rho> p1 p2. (\<forall>q. 0 \<le> \<rho> ''DRNew_Build_MWh'' g q) \<and> p1 \<le> p2 \<longrightarrow>
            (\<exists>c1 c2 x1 x2. dr_new_energy_capacity_rule m g p1 = Inr c1
               \<and> dr_new_energy_capacity_rule m g p2 = Inr c2
               \<and> eval_expr \<rho> c1 = Some x1 \<and> eval_expr \<rho> c2 = Some x2 \<and> x1 \<le> x2)"
  proof (intro allI impI)
    fix \<rho> :: valuation and p1 p2 :: int
    assume h: "(\<forall>q. 0 \<le> \<rho> ''DRNew_Build_MWh'' g q) \<and> p1 \<le> p2"
    then have "sum_list (map (\<rho> ''DRNew_Build_MWh'' g) (filter (\<lambda>q. q \<le> p1) (PERIODS m)))
             \<le> sum_list (map (\<rho> ''DRNew_Build_MWh'' g) (filter (\<lambda>q. q \<le> p2) (PERIODS m)))"
      by (intro cumulative_mono) simp_all
    then show "\<exists>c1 c2 x1 x2. dr_new_energy_capacity_rule m g p1 = Inr c1
               \<and> dr_new_energy_capacity_rule m g p2 = Inr c2
               \<and> eval_expr \<rho> c1 = Some x1 \<and> eval_expr \<rho> c2 = Some x2 \<and> x1 \<le> x2"
      by (simp add: total eval_py_sum_vars)
  qed
  have opr: "\<forall>p'. (g, p') \<in> set (DR_NEW_OPR_PRDS m) \<longleftrightarrow> p' \<in> set (PERIODS m)"
    using assms by (simp add: DR_NEW_OPR_PRDS_def)
  from total vals mono opr show ?thesis by blast
qed

theorem C10_witness:
  "''Shift1'' \<in> set (DR_NEW shift1_model)
   \<and> dr_new_energy_capacity_rule shift1_model ''Shift1'' 2030 =
       Inr (Add (Add (Num 0) (Var ''DRNew_Build_MWh'' ''Shift1'' 2020))
              (Var ''DRNew_Build_MWh'' ''Shift1'' 2030))"
  using C10_dr_new_cumulative [of "''Shift1''" shift1_model 2030]
  by (simp add: shift1_model_def py_sum_def)

section \<open>Two capacity types that claim the same pair\<close>

lemma union_conflict_sound:
  assumes "union_contributions relation cs = Inl (OperationalPeriodConflict g p)"
  shows "\<exists>j<length cs. (g, p) \<in> set (snd (cs ! j))
           \<and> ((g, p) \<in> set relation \<or> (\<exists>i<j. (g, p) \<in> set (snd (cs ! i))))"
  using assms
proof (induction cs arbitrary: relation)
  case Nil
  then show ?case by simp
next
  case (Cons c rest)
  obtain name contribution where c: "c = (name, contribution)" by (cases c)
  show ?case
  proof (cases "find (\<lambda>pair. pair \<in> set relation) contribution")
    case (Some hit)
    with Cons.prems c have "hit = (g, p)" by (cases hit) simp
    with Some have "(g, p) \<in> set contribution \<and> (g, p) \<in> set relation"
      by (auto simp: find_Some_iff)
    with c have "(g, p) \<in> set (snd ((c # rest) ! 0)) \<and> (g, p) \<in> set relation" by simp
    then show ?thesis by (intro exI [of _ 0]) simp
  next
    case None
    with Cons.prems c have
      "union_contributions (relation @ contribution) rest = Inl (OperationalPeriodConflict g p)"
      by simp
    from Cons.IH [OF this] obtain j where j: "j < length rest" "(g, p) \<in> set (snd (rest ! j))"
      "(g, p) \<in> set (relation @ contribution) \<or> (\<exists>i<j. (g, p) \<in> set (snd (rest ! i)))"
      by blast
    have "(g, p) \<in> set relation \<or> (\<exists>i<Suc j. (g, p) \<in> set (snd ((c # rest) ! i)))"
    proof -
      from j(3) consider "(g, p) \<in> set relation" | "(g, p) \<in> set contribution"
        | i where "i < j" "(g, p) \<in> set (snd (rest ! i))" by auto
      then show ?thesis
      proof cases
        case 1
        then show ?thesis by simp
      next
        case 2
        with c have "0 < Suc j \<and> (g, p) \<in> set (snd ((c # rest) ! 0))" by simp
        then show ?thesis by blast
      next
        case 3
        then have "Suc i < Suc j \<and> (g, p) \<in> set (snd ((c # rest) ! Suc i))" by simp
        then show ?thesis by blast
      qed
    qed
    with j(1,2) have "Suc j < length (c # rest) \<and> (g, p) \<in> set (snd ((c # rest) ! Suc j))
      \<and> ((g, p) \<in> set relation \<or> (\<exists>i<Suc j. (g, p) \<in> set (snd ((c # rest) ! i))))"
      by simp
    then show ?thesis by blast
  qed
qed

lemma union_conflict_complete:
  assumes "j < length cs" and "x \<in> set (snd (cs ! j))"
    and "x \<in> set relation \<or> (\<exists>i<j. x \<in> set (snd (cs ! i)))"
  shows "\<exists>g p. union_contributions relation cs = Inl (OperationalPeriodConflict g p)"
  using assms
proof (induction cs arbitrary: relation j)
  case Nil
  then show ?case by simp
next
  case (Cons c rest)
  obtain name contribution where c: "c = (name, contribution)" by (cases c)
  show ?case
  proof (cases "find (\<lambda>pair. pair \<in> set relation) contribution")
    case (Some hit)
    with c show ?thesis by (cases hit) simp
  next
    case None
    then have fresh: "\<And>y. y \<in> set contribution \<Longrightarrow> y \<notin> set relation"
      by (auto simp: find_None_iff)
    have "j \<noteq> 0"
    proof
      assume "j = 0"
      with Cons.prems c have "x \<in> set contribution" "x \<in> set relation" by simp_all
      with fresh show False by blast
    qed
    then obtain j' where j': "j = Suc j'" by (cases j) simp_all
    with Cons.prems have a: "j' < length rest" and b: "x \<in> set (snd (rest ! j'))" by simp_all
    have "x \<in> set (relation @ contribution) \<or> (\<exists>i<j'. x \<in> set (snd (rest ! i)))"
    proof -
      from Cons.prems(3) consider "x \<in> set relation" | i where "i < j" "x \<in> set (snd ((c # rest) ! i))"
        by blast
      then show ?thesis
      proof cases
        case 1
        then show ?thesis by simp
      next
        case 2
        show ?thesis
        proof (cases i)
          case 0
          with 2 c show ?thesis by simp
        next
          case (Suc i')
          with 2 j' have "i' < j' \<and> x \<in> set (snd (rest ! i'))" by simp
          then show ?thesis by blast
        qed
      qed
    qed
    from Cons.IH [OF a b this] obtain g p where
      "union_contributions (relation @ contribution) rest = Inl (OperationalPeriodConflict g p)"
      by blast
    with None c show ?thesis by simp
  qed
qed

text \<open>
  Claim C3. If two of the registered contributions both hold the same (project, period)
  pair, the aggregator does not return a relation: it stops with a conflict error, and
  the project and period the error names are a pair that two contributions hold.
\<close>

theorem C3_duplicate_claim_is_fatal:
  assumes "i < j" and "j < length contributions"
    and "(prj, prd) \<in> set (snd (contributions ! i))"
    and "(prj, prd) \<in> set (snd (contributions ! j))"
  shows "\<exists>g p. capacity_lifecycle_aggregator contributions = Inl (OperationalPeriodConflict g p)
           \<and> (\<exists>i' j'. i' < j' \<and> j' < length contributions
                 \<and> (g, p) \<in> set (snd (contributions ! i'))
                 \<and> (g, p) \<in> set (snd (contributions ! j')))"
proof -
  from assms have "(prj, prd) \<in> set [] \<or> (\<exists>i<j. (prj, prd) \<in> set (snd (contributions ! i)))"
    by blast
  from union_conflict_complete [OF assms(2) assms(4) this] obtain g p where
    raised: "union_contributions [] contributions = Inl (OperationalPeriodConflict g p)" by blast
  from union_conflict_sound [OF raised] obtain j' where
    "j' < length contributions" "(g, p) \<in> set (snd (contributions ! j'))"
    "\<exists>i'<j'. (g, p) \<in> set (snd (contributions ! i'))" by auto
  moreover from raised have
    "capacity_lifecycle_aggregator contributions = Inl (OperationalPeriodConflict g p)"
    by (simp add: capacity_lifecycle_aggregator_def)
  ultimately show ?thesis by blast
qed

text \<open>
  The spec's scenario: two capacity types claim (ProjectX, 2030), and the error names
  ProjectX and 2030.
\<close>

theorem C3_witness:
  "(0::nat) < 1 \<and> 1 < length projectx_contributions
   \<and> (''ProjectX'', 2030) \<in> set (snd (projectx_contributions ! 0))
   \<and> (''ProjectX'', 2030) \<in> set (snd (projectx_contributions ! 1))
   \<and> capacity_lifecycle_aggregator projectx_contributions =
       Inl (OperationalPeriodConflict ''ProjectX'' 2030)"
  using C3_duplicate_claim_is_fatal [of 0 1 projectx_contributions "''ProjectX''" 2030]
  by (simp add: projectx_contributions_def capacity_lifecycle_aggregator_def)


section \<open>The H2 tracking constraint at the first timepoint of a segment\<close>

text \<open>
  The branch for a \<open>linked\<close> boundary assigns four of the five locals that the
  \<open>return\<close> statement reads; \<open>prev_tmp_weight\<close> is assigned in the other branch only.
\<close>

lemma linked_previous_state_no_weight:
  assumes "linked_previous_state m s = Inr prev"
  shows "prev_tmp_weight prev = None"
  using assms
  by (auto simp: linked_previous_state_def split: sum.splits)

lemma linked_previous_state_present:
  assumes "hrs_in_linked_tmp m 0 = Some h"
    and "stor_linked_starting_H2_in_storage m (s, 0) = Some e"
    and "stor_H2_linked_discharge m (s, 0) = Some dis"
    and "stor_H2_linked_charge m (s, 0) = Some ch"
  shows "\<exists>prev. linked_previous_state m s = Inr prev
           \<and> prev_tmp_starting_energy_in_storage prev = Num e
           \<and> prev_tmp_discharge prev = Num dis \<and> prev_tmp_charge prev = Num ch"
  using assms by (simp add: linked_previous_state_def param_def)

lemma tracking_equation_unbound:
  assumes "prev_tmp_weight prev = None"
  shows "\<exists>e. tracking_equation m s tmp prev = Inl e"
  using assms by (simp add: tracking_equation_def split: sum.splits)

lemma tracking_equation_unbound_operational:
  assumes "prev_tmp_weight prev = None" and "(s, tmp) \<in> set (STOR_H2_OPR_TMPS m)"
  shows "tracking_equation m s tmp prev = Inl (UnboundLocalError ''prev_tmp_weight'')"
  using assms by (simp add: tracking_equation_def stor_H2_var_def)

lemma tracking_equation_not_skip: "tracking_equation m s tmp prev \<noteq> Inr Skip"
  by (simp add: tracking_equation_def split: sum.splits option.splits if_splits)

lemma linked_rule:
  assumes "check_if_first_timepoint m tmp (balancing_type_project m s)"
    and "check_boundary_type m tmp (balancing_type_project m s) ''linked''"
  shows "H2_tracking_rule m s tmp =
     (case linked_previous_state m s of Inl e \<Rightarrow> Inl e | Inr prev \<Rightarrow> tracking_equation m s tmp prev)"
proof -
  from assms(2) have "\<not> check_boundary_type m tmp (balancing_type_project m s) ''linear''"
    by (simp add: check_boundary_type_def)
  with assms show ?thesis by (simp add: H2_tracking_rule_def)
qed

text \<open>
  Claim C2. The claim has the constraint at the first timepoint of a \<open>linked\<close> segment
  refer to the values handed over by the previous subproblem. The rule does read those
  values there, and then raises: at such a timepoint \<open>H2_tracking_rule\<close> returns no
  constraint for any model, and when the linked values are present and the timepoint is
  operational the exception is the \<open>UnboundLocalError\<close> for \<open>prev_tmp_weight\<close>.
\<close>

theorem C2_linked_first_timepoint_raises:
  assumes "check_if_first_timepoint m tmp (balancing_type_project m s)"
    and "check_boundary_type m tmp (balancing_type_project m s) ''linked''"
  shows "(\<exists>e. H2_tracking_rule m s tmp = Inl e)
       \<and> (hrs_in_linked_tmp m 0 \<noteq> None
          \<and> stor_linked_starting_H2_in_storage m (s, 0) \<noteq> None
          \<and> stor_H2_linked_discharge m (s, 0) \<noteq> None
          \<and> stor_H2_linked_charge m (s, 0) \<noteq> None
          \<and> (s, tmp) \<in> set (STOR_H2_OPR_TMPS m)
          \<longrightarrow> H2_tracking_rule m s tmp = Inl (UnboundLocalError ''prev_tmp_weight''))"
proof -
  note rule = linked_rule [OF assms]
  have raises: "\<exists>e. H2_tracking_rule m s tmp = Inl e"
  proof (cases "linked_previous_state m s")
    case (Inl e)
    with rule show ?thesis by simp
  next
    case (Inr prev)
    then have "prev_tmp_weight prev = None" by (rule linked_previous_state_no_weight)
    then obtain e where "tracking_equation m s tmp prev = Inl e"
      using tracking_equation_unbound by blast
    with rule Inr show ?thesis by simp
  qed
  have unbound: "hrs_in_linked_tmp m 0 \<noteq> None
          \<and> stor_linked_starting_H2_in_storage m (s, 0) \<noteq> None
          \<and> stor_H2_linked_discharge m (s, 0) \<noteq> None
          \<and> stor_H2_linked_charge m (s, 0) \<noteq> None
          \<and> (s, tmp) \<in> set (STOR_H2_OPR_TMPS m)
          \<longrightarrow> H2_tracking_rule m s tmp = Inl (UnboundLocalError ''prev_tmp_weight'')"
  proof
    assume h: "hrs_in_linked_tmp m 0 \<noteq> None
          \<and> stor_linked_starting_H2_in_storage m (s, 0) \<noteq> None
          \<and> stor_H2_linked_discharge m (s, 0) \<noteq> None
          \<and> stor_H2_linked_charge m (s, 0) \<noteq> None
          \<and> (s, tmp) \<in> set (STOR_H2_OPR_TMPS m)"
    then obtain hv e dis ch where "hrs_in_linked_tmp m 0 = Some hv"
      "stor_linked_starting_H2_in_storage m (s, 0) = Some e"
      "stor_H2_linked_discharge m (s, 0) = Some dis"
      "stor_H2_linked_charge m (s, 0) = Some ch" by auto
    from linked_previous_state_present [OF this] obtain prev where
      prev: "linked_previous_state m s = Inr prev" by blast
    then have "prev_tmp_weight prev = None" by (rule linked_previous_state_no_weight)
    with h have "tracking_equation m s tmp prev = Inl (UnboundLocalError ''prev_tmp_weight'')"
      by (simp add: tracking_equation_unbound_operational)
    with rule prev show "H2_tracking_rule m s tmp = Inl (UnboundLocalError ''prev_tmp_weight'')"
      by simp
  qed
  from raises unbound show ?thesis by blast
qed

text \<open>
  The handed-over H2 in storage is 50; the rule raises instead of building the
  constraint that refers to it.
\<close>

theorem C2_witness:
  "check_if_first_timepoint h2store_model 1 (balancing_type_project h2store_model ''H2Store'')
   \<and> check_boundary_type h2store_model 1 (balancing_type_project h2store_model ''H2Store'') ''linked''
   \<and> stor_linked_starting_H2_in_storage h2store_model (''H2Store'', 0) = Some 50
   \<and> H2_tracking_rule h2store_model ''H2Store'' 1 = Inl (UnboundLocalError ''prev_tmp_weight'')"
  using C2_linked_first_timepoint_raises [of h2store_model 1 "''H2Store''"]
  by (simp add: h2store_model_def check_if_first_timepoint_def check_boundary_type_def)

text \<open>
  At the first timepoint of a \<open>linear\<close> segment the rule skips the constraint; at a
  timepoint that is not the first it refers to the variables of the previous timepoint.
\<close>

lemma h2_linear_skip:
  "H2_tracking_rule h2store_linear ''H2Store'' 1 = Inr Skip"
  by (simp add: H2_tracking_rule_def h2store_linear_def h2store_first_subproblem_def h2store_model_def
      check_if_first_timepoint_def check_boundary_type_def)

lemma h2_second_tmp:
  "H2_tracking_rule h2store_model ''H2Store'' 2 =
     Inr (Eq (Var ''Stor_Starting_H2_in_Storage_MWh'' ''H2Store'' 2)
       (Sub (Add (Var ''Stor_Starting_H2_in_Storage_MWh'' ''H2Store'' 1)
               (Mul (Mul (Mul (Var ''Stor_H2_Charge_MW'' ''H2Store'' 1) (Num 1)) (Num 1)) (Num 1)))
            (Div (Mul (Mul (Var ''Stor_H2_Discharge_MW'' ''H2Store'' 1) (Num 1)) (Num 1)) (Num 1))))"
  by (simp add: H2_tracking_rule_def h2store_model_def own_previous_state_def tracking_equation_def
      stor_H2_var_def check_if_first_timepoint_def check_boundary_type_def)

section \<open>A subproblem without a linked-timepoint file\<close>

text \<open>
  Claim C6, as stated, fails. In a first subproblem the file is absent and
  \<open>load_model_data\<close> succeeds, but at the first timepoint of a \<open>linked\<close> segment the
  rule is not skipped: it reads the linked parameters, which have no values, and raises
  a \<open>KeyError\<close>.
\<close>

theorem C6_counterexample:
  "load_model_data Inr (\<lambda>file m. Inr m) Map.empty h2store_first_subproblem ''scenario'' 1 ''1'' =
     Inr h2store_first_subproblem
   \<and> check_if_first_timepoint h2store_first_subproblem 1
        (balancing_type_project h2store_first_subproblem ''H2Store'')
   \<and> check_boundary_type h2store_first_subproblem 1
        (balancing_type_project h2store_first_subproblem ''H2Store'') ''linked''
   \<and> H2_tracking_rule h2store_first_subproblem ''H2Store'' 1 = Inl (KeyError ''hrs_in_linked_tmp'')
   \<and> H2_tracking_rule h2store_first_subproblem ''H2Store'' 1 \<noteq> Inr Skip"
  by (simp add: load_model_data_def H2_tracking_rule_def linked_previous_state_def param_def
      h2store_first_subproblem_def h2store_model_def check_if_first_timepoint_def
      check_boundary_type_def)

lemma linked_previous_state_no_values:
  assumes "stor_linked_starting_H2_in_storage m (s, 0) = None"
  shows "\<exists>name. linked_previous_state m s = Inl (KeyError name)"
  using assms by (cases "hrs_in_linked_tmp m 0") (simp_all add: linked_previous_state_def param_def)

lemma skip_iff_linear_first:
  "H2_tracking_rule m s tmp = Inr Skip \<longleftrightarrow>
     check_if_first_timepoint m tmp (balancing_type_project m s)
     \<and> check_boundary_type m tmp (balancing_type_project m s) ''linear''"
proof (cases "check_if_first_timepoint m tmp (balancing_type_project m s)
     \<and> check_boundary_type m tmp (balancing_type_project m s) ''linear''")
  case True
  then show ?thesis by (simp add: H2_tracking_rule_def)
next
  case False
  let ?prev = "if check_if_first_timepoint m tmp (balancing_type_project m s)
               \<and> check_boundary_type m tmp (balancing_type_project m s) ''linked''
            then linked_previous_state m s
            else own_previous_state m s tmp"
  from False have rule: "H2_tracking_rule m s tmp =
      (case ?prev of Inl e \<Rightarrow> Inl e | Inr prev \<Rightarrow> tracking_equation m s tmp prev)"
    by (simp only: H2_tracking_rule_def if_False)
  have "H2_tracking_rule m s tmp \<noteq> Inr Skip"
  proof (cases ?prev)
    case (Inl e)
    with rule show ?thesis by simp
  next
    case (Inr prev)
    with rule have "H2_tracking_rule m s tmp = tracking_equation m s tmp prev" by simp
    then show ?thesis by (simp add: tracking_equation_not_skip)
  qed
  with False show ?thesis by simp
qed

text \<open>
  Claim C6, amended. If the linked-timepoint file is absent, the last step of
  \<open>load_model_data\<close> loads no linked values and raises nothing: the result is the model
  that \<open>load_optype_model_data\<close> returned. The tracking rule does not look at the file.
  With no linked values loaded, it skips the constraint exactly at the first timepoint of
  a segment whose boundary type is \<open>linear\<close>, and at the first timepoint of a \<open>linked\<close>
  segment it raises a \<open>KeyError\<close>.
\<close>

theorem C6_absent_file_loads_nothing:
  assumes "fs (linked_inputs_filename scenario_directory subproblem stage) = None"
    and "load_optype_model_data m = Inr m1"
    and "stor_linked_starting_H2_in_storage m1 = Map.empty"
  shows "load_model_data load_optype_model_data data_portal_load fs m
           scenario_directory subproblem stage = Inr m1
       \<and> (H2_tracking_rule m1 s tmp = Inr Skip \<longleftrightarrow>
            check_if_first_timepoint m1 tmp (balancing_type_project m1 s)
            \<and> check_boundary_type m1 tmp (balancing_type_project m1 s) ''linear'')
       \<and> (check_if_first_timepoint m1 tmp (balancing_type_project m1 s)
          \<and> check_boundary_type m1 tmp (balancing_type_project m1 s) ''linked''
          \<longrightarrow> (\<exists>name. H2_tracking_rule m1 s tmp = Inl (KeyError name)))"
proof -
  from assms(1,2) have loaded: "load_model_data load_optype_model_data data_portal_load fs m
           scenario_directory subproblem stage = Inr m1"
    by (simp add: load_model_data_def)
  have linked: "check_if_first_timepoint m1 tmp (balancing_type_project m1 s)
          \<and> check_boundary_type m1 tmp (balancing_type_project m1 s) ''linked''
          \<longrightarrow> (\<exists>name. H2_tracking_rule m1 s tmp = Inl (KeyError name))"
  proof
    assume h: "check_if_first_timepoint m1 tmp (balancing_type_project m1 s)
          \<and> check_boundary_type m1 tmp (balancing_type_project m1 s) ''linked''"
    from assms(3) have "stor_linked_starting_H2_in_storage m1 (s, 0) = None" by simp
    then obtain name where "linked_previous_state m1 s = Inl (KeyError name)"
      using linked_previous_state_no_values by blast
    moreover from h have "H2_tracking_rule m1 s tmp =
        (case linked_previous_state m1 s of Inl e \<Rightarrow> Inl e
         | Inr prev \<Rightarrow> tracking_equation m1 s tmp prev)"
      by (simp add: linked_rule)
    ultimately show "\<exists>name. H2_tracking_rule m1 s tmp = Inl (KeyError name)" by simp
  qed
  from loaded skip_iff_linear_first [of m1 s tmp] linked show ?thesis by blast
qed

theorem C6_witness:
  "(Map.empty :: filesystem) (linked_inputs_filename ''scenario'' 1 ''1'') = None
   \<and> stor_linked_starting_H2_in_storage h2store_linear = Map.empty
   \<and> load_model_data Inr (\<lambda>file m. Inr m) Map.empty h2store_linear ''scenario'' 1 ''1'' =
       Inr h2store_linear
   \<and> H2_tracking_rule h2store_linear ''H2Store'' 1 = Inr Skip"
  using C6_absent_file_loads_nothing [of Map.empty "''scenario''" 1 "''1''" Inr h2store_linear
      h2store_linear "\<lambda>file m. Inr m" "''H2Store''" 1]
  by (simp add: h2store_linear_def h2store_first_subproblem_def h2store_model_def
      check_if_first_timepoint_def check_boundary_type_def)

section \<open>The file that the export step writes\<close>

lemma export_leaves_load_file:
  "fst (export_results m fs scenario_directory subproblem stage tmps_to_link tmp_linked_tmp_dict)
     (linked_inputs_filename scenario_directory (subproblem + 1) stage) =
   fs (linked_inputs_filename scenario_directory (subproblem + 1) stage)"
  by (simp add: export_results_def Let_def linked_inputs_filename_def dispatch_filename_def
      exported_linked_filename_def split: option.splits prod.splits)

text \<open>
  Claim C9. The claim has \<open>export_results\<close> write the file that the next subproblem's
  \<open>load_model_data\<close> reads. Whatever the inputs, \<open>export_results\<close> leaves the path
  that the next subproblem loads, \<open>stor_H2_linked_timepoint_params.tab\<close>, as it was.
  With one timepoint to link it writes \<open>gen_H2_linked_timepoint_params.tab\<close> instead,
  with the columns and the values of another module's variables, and the path that the
  next subproblem loads does not exist afterwards.
\<close>

theorem C9_export_writes_another_file:
  "fst (export_results m fs scenario_directory subproblem stage tmps_to_link tmp_linked_tmp_dict)
     (linked_inputs_filename scenario_directory (subproblem + 1) stage) =
   fs (linked_inputs_filename scenario_directory (subproblem + 1) stage)
   \<and> export_results h2store_model Map.empty ''scenario'' 1 ''1'' [2] [2 \<mapsto> 0] =
       ([dispatch_filename ''scenario'' 1 ''1'' \<mapsto>
           \<lparr> header = dispatch_header,
             rows = map (dispatch_row h2store_model) (STOR_H2_OPR_TMPS h2store_model) \<rparr>,
         [Name ''scenario'', Number 2, Name ''1'', Name ''inputs'',
          Name ''gen_H2_linked_timepoint_params.tab''] \<mapsto>
           \<lparr> header = [''project'', ''linked_timepoint'', ''linked_charge'', ''linked_H2''],
             rows = [[Text ''Electrolyzer'', Whole 0, Decimal 3, Decimal 4]] \<rparr>],
        None)
   \<and> linked_inputs_filename ''scenario'' 2 ''1'' =
       [Name ''scenario'', Number 2, Name ''1'', Name ''inputs'',
        Name ''stor_H2_linked_timepoint_params.tab'']
   \<and> fst (export_results h2store_model Map.empty ''scenario'' 1 ''1'' [2] [2 \<mapsto> 0])
        (linked_inputs_filename ''scenario'' 2 ''1'') = None"
proof -
  have untouched:
    "fst (export_results m fs scenario_directory subproblem stage tmps_to_link tmp_linked_tmp_dict)
       (linked_inputs_filename scenario_directory (subproblem + 1) stage) =
     fs (linked_inputs_filename scenario_directory (subproblem + 1) stage)"
    by (rule export_leaves_load_file)
  have example: "export_results h2store_model Map.empty ''scenario'' 1 ''1'' [2] [2 \<mapsto> 0] =
       ([dispatch_filename ''scenario'' 1 ''1'' \<mapsto>
           \<lparr> header = dispatch_header,
             rows = map (dispatch_row h2store_model) (STOR_H2_OPR_TMPS h2store_model) \<rparr>,
         [Name ''scenario'', Number 2, Name ''1'', Name ''inputs'',
          Name ''gen_H2_linked_timepoint_params.tab''] \<mapsto>
           \<lparr> header = [''project'', ''linked_timepoint'', ''linked_charge'', ''linked_H2''],
             rows = [[Text ''Electrolyzer'', Whole 0, Decimal 3, Decimal 4]] \<rparr>],
        None)"
    by (simp add: export_results_def Let_def exported_linked_filename_def exported_linked_header_def
        other_module_value_def h2store_model_def)
  have name: "linked_inputs_filename ''scenario'' 2 ''1'' =
       [Name ''scenario'', Number 2, Name ''1'', Name ''inputs'',
        Name ''stor_H2_linked_timepoint_params.tab'']"
    by (simp add: linked_inputs_filename_def)
  have absent: "fst (export_results h2store_model Map.empty ''scenario'' 1 ''1'' [2] [2 \<mapsto> 0])
        (linked_inputs_filename ''scenario'' 2 ''1'') = None"
    using export_leaves_load_file [of h2store_model Map.empty "''scenario''" 1 "''1''" "[2]" "[2 \<mapsto> 0]"]
    by simp
  from untouched example name absent show ?thesis by blast
qed

section \<open>The names that the capacity types register\<close>

text \<open>
  Claim C4. The claim has every capacity type register the name of its
  operational-period set. \<open>stor_ccs_new_lin\<close>, \<open>gen_ccs_spec\<close>, \<open>dr_new\<close> and
  \<open>mass_new_lin\<close> do;
  \<open>gen_ccs_new\<close> registers \<open>GEN_CCS_NEW_VNTS\<close>, its set of (project, vintage) pairs.
  For a project with the single vintage 2020 and a lifetime of 10 years the registered
  set holds 2020 only, while the operational periods are 2020 and 2025.
\<close>

theorem C4_gen_ccs_new_registers_vintages:
  "capacity_type_operational_period_sets (gen_ccs_new_add_model_components empty_registry) =
     [''GEN_CCS_NEW_VNTS'']
   \<and> gen_ccs_new_set gas_ccs_model ''GEN_CCS_NEW_VNTS'' = Inr [(''Gas_CCS'', 2020)]
   \<and> gen_ccs_new_set gas_ccs_model ''GEN_CCS_NEW_GEN_OPR_PRDS'' =
       Inr [(''Gas_CCS'', 2020), (''Gas_CCS'', 2025)]
   \<and> capacity_type_operational_period_sets (stor_ccs_new_lin_add_model_components empty_registry) =
       [''STOR_CCS_NEW_LIN_OPR_PRDS'']
   \<and> capacity_type_operational_period_sets (gen_ccs_spec_add_model_components empty_registry) =
       [''GEN_CCS_SPEC_OPR_PRDS'']
   \<and> capacity_type_operational_period_sets (dr_new_add_module_specific_components empty_registry) =
       [''DR_NEW_OPR_PRDS'']
   \<and> tx_capacity_type_operational_period_sets (mass_new_lin_add_model_components empty_registry) =
       [''MASS_NEW_LIN_OPR_PRDS'']"
  by (simp add: gen_ccs_new_add_model_components_def stor_ccs_new_lin_add_model_components_def
      gen_ccs_spec_add_model_components_def dr_new_add_module_specific_components_def
      mass_new_lin_add_model_components_def empty_registry_def gen_ccs_new_set_def
      gen_ccs_new_gen_operational_periods_def operational_periods_by_gen_vintage_def
      operational_periods_by_project_vintage_def project_operational_periods_def list_of_set_def
      gas_ccs_model_def)


end
